theory Spec2Isabelle
  imports Complex_Main
begin

section \<open>ShareSessionCoordinator: the \<open>ShareProvider\<close> hook\<close>

text \<open>
  The repository holds three copies of \<open>ShareProvider\<close>:
  \<^item> \<open>packages/react/src/hooks/useShare.ts\<close>: \<open>isOpen\<close>, \<open>isSharing\<close>, \<open>activeType\<close> and the
    \<open>stopHandlerRef\<close> cell;
  \<^item> \<open>unnamed/part_000\<close>: the same, plus \<open>selectedFile\<close> and \<open>videoElement\<close>;
  \<^item> \<open>unnamed/part_004\<close>: no \<open>isSharing\<close>; \<open>setSharing\<close> takes the type only.
  One record carries the fields of all three; a copy leaves the fields it does not have
  untouched. React state setters and the write to the ref cell are modelled as
  assignments to the record, applied in program order.

  A stop handler is a function \<open>() => Promise<void>\<close> supplied by a caller. Its type is
  the parameter \<open>'h\<close>; what calling it does is given by an interpretation
  \<open>run h s = (rejected, s')\<close>: whether the promise rejects, and the coordinator state the
  handler leaves behind (its own calls of \<open>setSharing\<close> and \<open>setStopHandler\<close>).
\<close>

datatype ShareType = SCREEN | VIDEO

text \<open>A \<open>File\<close>: its name, its MIME type as the browser reports it, its size in bytes.\<close>

record js_file =
  file_name :: string
  file_type :: string
  file_size :: nat

record 'h share_state =
  isOpen :: bool
  isSharing :: bool
  activeType :: "ShareType option"
  stopHandlerRef :: "'h option"
  selectedFile :: "js_file option"
  videoElement :: "nat option"

type_synonym 'h run_handler = "'h \<Rightarrow> 'h share_state \<Rightarrow> bool \<times> 'h share_state"

definition initial_share :: "'h share_state" where
  "initial_share = \<lparr>isOpen = False, isSharing = False, activeType = None,
     stopHandlerRef = None, selectedFile = None, videoElement = None\<rparr>"

definition open_panel :: "'h share_state \<Rightarrow> 'h share_state" where
  "open_panel s = s\<lparr>isOpen := True\<rparr>"

definition close :: "'h share_state \<Rightarrow> 'h share_state" where
  "close s = s\<lparr>isOpen := False\<rparr>"

definition toggle :: "'h share_state \<Rightarrow> 'h share_state" where
  "toggle s = s\<lparr>isOpen := \<not> isOpen s\<rparr>"

definition setStopHandler :: "'h option \<Rightarrow> 'h share_state \<Rightarrow> 'h share_state" where
  "setStopHandler fn s = s\<lparr>stopHandlerRef := fn\<rparr>"

text \<open>\<open>setSharing(sharing, type?)\<close> of \<open>useShare.ts\<close> and \<open>part_000\<close>.\<close>

definition setSharing :: "bool \<Rightarrow> ShareType option \<Rightarrow> 'h share_state \<Rightarrow> 'h share_state" where
  "setSharing sharing type s =
     (if sharing then s\<lparr>isSharing := sharing, activeType := type\<rparr>
      else s\<lparr>isSharing := sharing, activeType := None\<rparr>)"

text \<open>\<open>setSharing(type | null)\<close> of \<open>part_004\<close>.\<close>

definition setSharing_004 :: "ShareType option \<Rightarrow> 'h share_state \<Rightarrow> 'h share_state" where
  "setSharing_004 type s = s\<lparr>activeType := type\<rparr>"

text \<open>
  The first statement of every \<open>stop()\<close>: call the handler held in the ref cell, if any,
  inside \<open>try { await ... } catch { /* ignore */ }\<close>. The rejection flag is dropped: both
  outcomes continue with the state the handler left.
\<close>

definition call_stop_handler :: "'h run_handler \<Rightarrow> 'h share_state \<Rightarrow> 'h share_state" where
  "call_stop_handler run s =
     (case stopHandlerRef s of
        None \<Rightarrow> s
      | Some h \<Rightarrow> (case run h s of (rejected, s') \<Rightarrow> s'))"

text \<open>\<open>stop()\<close> of \<open>packages/react/src/hooks/useShare.ts\<close>.\<close>

definition stop :: "'h run_handler \<Rightarrow> 'h share_state \<Rightarrow> 'h share_state" where
  "stop run s =
     (let s1 = call_stop_handler run s
      in s1\<lparr>isSharing := False, activeType := None\<rparr>)"

text \<open>
  \<open>stop()\<close> of \<open>part_000\<close>. The callback depends on \<open>[activeType]\<close>, so the \<open>activeType\<close> it
  tests is the one of the render that created it: the value before the handler ran.
\<close>

definition stop_000 :: "'h run_handler \<Rightarrow> 'h share_state \<Rightarrow> 'h share_state" where
  "stop_000 run s =
     (let captured = activeType s;
          s1 = call_stop_handler run s;
          s2 = s1\<lparr>isSharing := False\<rparr>;
          s3 = (if captured = Some VIDEO
                then s2\<lparr>selectedFile := None, videoElement := None\<rparr> else s2)
      in s3\<lparr>activeType := None\<rparr>)"

text \<open>\<open>stop()\<close> of \<open>part_004\<close>: as \<open>part_000\<close>, without \<open>isSharing\<close>.\<close>

definition stop_004 :: "'h run_handler \<Rightarrow> 'h share_state \<Rightarrow> 'h share_state" where
  "stop_004 run s =
     (let captured = activeType s;
          s1 = call_stop_handler run s;
          s2 = (if captured = Some VIDEO
                then s1\<lparr>selectedFile := None, videoElement := None\<rparr> else s1)
      in s2\<lparr>activeType := None\<rparr>)"

text \<open>
  The two handlers the repository registers. \<open>ScreenShareTab\<close> passes
  \<open>() => toggle(false).then(() => {})\<close>; switching the screen track off fires
  \<open>onChange(false)\<close>, which calls \<open>setSharing(false, null)\<close> and \<open>setStopHandler(null)\<close>.
  \<open>VideoShareTab\<close> passes \<open>() => stopSharing()\<close>, which works on the engine only and
  catches its own errors. \<open>Failing\<close> stands for a handler whose promise rejects.
\<close>

datatype repo_handler = ScreenStop | VideoStop | Failing

fun run_repo :: "repo_handler run_handler" where
  "run_repo ScreenStop s = (False, setStopHandler None (setSharing False None s))"
| "run_repo VideoStop s = (False, s)"
| "run_repo Failing s = (True, s)"

text \<open>
  The copies differ only in \<open>setSharing\<close> and \<open>stop\<close>; \<open>variant\<close> selects the copy a
  sequence of calls runs against.
\<close>

datatype variant = UseShare | Part000 | Part004

fun stop_of :: "variant \<Rightarrow> 'h run_handler \<Rightarrow> 'h share_state \<Rightarrow> 'h share_state" where
  "stop_of UseShare = stop"
| "stop_of Part000 = stop_000"
| "stop_of Part004 = stop_004"

fun setSharing_of :: "variant \<Rightarrow> ShareType option \<Rightarrow> 'h share_state \<Rightarrow> 'h share_state" where
  "setSharing_of UseShare type = setSharing (type \<noteq> None) type"
| "setSharing_of Part000 type = setSharing (type \<noteq> None) type"
| "setSharing_of Part004 type = setSharing_004 type"

text \<open>
  The invariant of the spec's \<open>ShareState\<close>: a stop handler is held iff a share mode is
  active.
\<close>

definition handler_iff_active :: "'h share_state \<Rightarrow> bool" where
  "handler_iff_active s = ((stopHandlerRef s \<noteq> None) = (activeType s \<noteq> None))"

text \<open>
  What the callers in \<open>ShareModal\<close> do with the coordinator: panel toggles; a
  declaration of a started share, \<open>setSharing(type)\<close> together with
  \<open>setStopHandler(fn)\<close>; the reverse pair \<open>setSharing(null)\<close>, \<open>setStopHandler(null)\<close> of
  \<open>onChange(false)\<close>; and \<open>stop()\<close> from the share toggle.
\<close>

datatype 'h caller_step =
    OpenPanel | ClosePanel | TogglePanel
  | Declare ShareType 'h
  | Undeclare
  | Stop

fun apply_step :: "variant \<Rightarrow> 'h run_handler \<Rightarrow> 'h caller_step \<Rightarrow> 'h share_state \<Rightarrow> 'h share_state" where
  "apply_step v run OpenPanel s = open_panel s"
| "apply_step v run ClosePanel s = close s"
| "apply_step v run TogglePanel s = toggle s"
| "apply_step v run (Declare t h) s = setStopHandler (Some h) (setSharing_of v (Some t) s)"
| "apply_step v run Undeclare s = setStopHandler None (setSharing_of v None s)"
| "apply_step v run Stop s = stop_of v run s"

text \<open>
  \<open>stop()\<close> never writes the ref cell, so a \<open>Stop\<close> step keeps the invariant only when the
  handler it calls leaves the cell empty. \<open>clears_ref\<close> says so of one step;
  \<open>clearing_run\<close> of every \<open>Stop\<close> of a sequence.
\<close>

fun clears_ref :: "'h run_handler \<Rightarrow> 'h caller_step \<Rightarrow> 'h share_state \<Rightarrow> bool" where
  "clears_ref run Stop s = (stopHandlerRef (call_stop_handler run s) = None)"
| "clears_ref run step s = True"

fun caller_steps :: "variant \<Rightarrow> 'h run_handler \<Rightarrow> 'h caller_step list \<Rightarrow> 'h share_state \<Rightarrow> 'h share_state" where
  "caller_steps v run [] s = s"
| "caller_steps v run (x # xs) s = caller_steps v run xs (apply_step v run x s)"

fun clearing_run :: "variant \<Rightarrow> 'h run_handler \<Rightarrow> 'h caller_step list \<Rightarrow> 'h share_state \<Rightarrow> bool" where
  "clearing_run v run [] s = True"
| "clearing_run v run (x # xs) s =
     (clears_ref run x s \<and> clearing_run v run xs (apply_step v run x s))"

section \<open>CaptureAndPublishEngine: the \<open>useVideoFileShare\<close> hook\<close>

text \<open>
  Two copies of the hook exist. \<open>unnamed/part_001\<close> takes the video element as an option
  and keeps a list of audio publications in \<open>audioTracksRef\<close>; \<open>unnamed/part_005\<close> holds
  the element itself and keeps one audio publication in \<open>audioTrackRef\<close>. The record
  \<open>engine\<close> carries the React state and the three ref cells of a copy (both audio cells;
  a copy never touches the other's).

  The collaborators are explicit. \<open>world\<close> is what the engine does to them: the element's
  flags, every call of \<open>publishTrack\<close> and \<open>unpublishTrack\<close> in order (a call that rejects
  is still a call), every track stopped, and every callback invoked through
  \<open>options.onX?.()\<close> (an absent callback makes the invocation a no-op; callbacks return
  normally, as the repository's own do). \<open>env\<close> is what the collaborators answer: whether
  \<open>play()\<close> rejects, what \<open>captureStream(frameRate)\<close> returns or throws, and for the
  n-th call of \<open>publishTrack\<close> or \<open>unpublishTrack\<close> whether it resolves or rejects.
  The awaits run one after the other inside one invocation; no second invocation is
  interleaved.
\<close>

type_synonym track = nat

text \<open>A thrown value: an \<open>Error\<close>, kept by its message, or a value that is no \<open>Error\<close>.\<close>

datatype thrown = ErrorObj string | NonError

type_synonym js_error = string

text \<open>\<open>err instanceof Error ? err : new Error(fallback)\<close>\<close>

definition as_error :: "string \<Rightarrow> thrown \<Rightarrow> js_error" where
  "as_error fallback x = (case x of ErrorObj m \<Rightarrow> m | NonError \<Rightarrow> fallback)"

datatype TrackSource = Camera | Microphone | ScreenShare | ScreenShareAudio | Unknown

record publish_options =
  opt_name :: string
  opt_source :: TrackSource
  opt_simulcast :: "bool option"
  opt_stream :: "string option"

text \<open>A \<open>LocalTrackPublication\<close>; its \<open>track\<close> field is optional in the client library.\<close>

record publication =
  trackSid :: nat
  pub_track :: "track option"

record media_stream =
  stream_id :: string
  videoTracks :: "track list"
  audioTracks :: "track list"

text \<open>\<open>stream.getTracks()\<close>: all sub-tracks (the platform fixes no order).\<close>

definition getTracks :: "media_stream \<Rightarrow> track list" where
  "getTracks ms = audioTracks ms @ videoTracks ms"

text \<open>The attributes of the \<open>HTMLVideoElement\<close> the hooks read or write.\<close>

record video_element =
  el_muted :: bool
  el_volume :: real
  el_paused :: bool
  el_currentTime :: real
  el_duration :: real
  el_playbackRate :: real

datatype callback = OnError js_error | OnTrackPublished | OnTrackUnpublished

record engine =
  eng_isSharing :: bool
  eng_isLoading :: bool
  eng_error :: "js_error option"
  videoTrackRef :: "publication option"
  audioTracksRef :: "publication list option"
  audioTrackRef :: "publication option"
  streamRef :: "media_stream option"

record world =
  element :: "video_element option"
  publish_log :: "(track \<times> publish_options) list"
  unpublish_log :: "track list"
  stopped :: "track list"
  callbacks :: "callback list"

record env =
  play :: "thrown option"
  captureStream :: "nat \<Rightarrow> thrown + media_stream"
  publishTrack :: "nat \<Rightarrow> track \<Rightarrow> publish_options \<Rightarrow> thrown + publication"
  unpublishTrack :: "nat \<Rightarrow> track \<Rightarrow> thrown option"

type_synonym config = "engine \<times> world"

text \<open>
  A statement sequence inside \<open>try\<close>: the configuration reached, and the value thrown if
  the sequence stopped there. \<open>andThen\<close> runs the rest only after a normal completion.
\<close>

type_synonym completion = "config \<times> thrown option"

definition andThen :: "completion \<Rightarrow> (config \<Rightarrow> completion) \<Rightarrow> completion" where
  "andThen r f = (case r of (c, None) \<Rightarrow> f c | (c, Some x) \<Rightarrow> (c, Some x))"

definition call_unpublish :: "env \<Rightarrow> track \<Rightarrow> world \<Rightarrow> world \<times> thrown option" where
  "call_unpublish env t w =
     (w\<lparr>unpublish_log := unpublish_log w @ [t]\<rparr>,
      unpublishTrack env (length (unpublish_log w)) t)"

definition call_publish ::
  "env \<Rightarrow> track \<Rightarrow> publish_options \<Rightarrow> world \<Rightarrow> world \<times> (thrown + publication)" where
  "call_publish env t opts w =
     (w\<lparr>publish_log := publish_log w @ [(t, opts)]\<rparr>,
      publishTrack env (length (publish_log w)) t opts)"

definition setIsLoading :: "bool \<Rightarrow> config \<Rightarrow> config" where
  "setIsLoading b c = (case c of (e, w) \<Rightarrow> (e\<lparr>eng_isLoading := b\<rparr>, w))"

subsection \<open>\<open>stopSharing\<close>\<close>

text \<open>
  \<open>if (videoTrackRef.current?.track) { await unpublishTrack(...); videoTrackRef.current = null; }\<close>
\<close>

definition unpublish_video :: "env \<Rightarrow> config \<Rightarrow> completion" where
  "unpublish_video env c =
     (case c of (e, w) \<Rightarrow>
        (case videoTrackRef e of
           None \<Rightarrow> (c, None)
         | Some p \<Rightarrow>
             (case pub_track p of
                None \<Rightarrow> (c, None)
              | Some t \<Rightarrow>
                  (case call_unpublish env t w of
                     (w', Some x) \<Rightarrow> ((e, w'), Some x)
                   | (w', None) \<Rightarrow> ((e\<lparr>videoTrackRef := None\<rparr>, w'), None)))))"

text \<open>
  \<open>part_001\<close>: the loop \<open>for (const audioTrackRef of audioTracksRef.current)\<close>, and the
  assignment \<open>audioTracksRef.current = null\<close> after it.
\<close>

fun unpublish_each :: "env \<Rightarrow> publication list \<Rightarrow> world \<Rightarrow> world \<times> thrown option" where
  "unpublish_each env [] w = (w, None)"
| "unpublish_each env (p # ps) w =
     (case pub_track p of
        None \<Rightarrow> unpublish_each env ps w
      | Some t \<Rightarrow>
          (case call_unpublish env t w of
             (w', Some x) \<Rightarrow> (w', Some x)
           | (w', None) \<Rightarrow> unpublish_each env ps w'))"

definition unpublish_audio :: "env \<Rightarrow> config \<Rightarrow> completion" where
  "unpublish_audio env c =
     (case c of (e, w) \<Rightarrow>
        (case audioTracksRef e of
           None \<Rightarrow> (c, None)
         | Some ps \<Rightarrow>
             (case unpublish_each env ps w of
                (w', Some x) \<Rightarrow> ((e, w'), Some x)
              | (w', None) \<Rightarrow> ((e\<lparr>audioTracksRef := None\<rparr>, w'), None))))"

text \<open>
  \<open>part_005\<close>:
  \<open>if (audioTrackRef.current?.track) { await unpublishTrack(...); audioTrackRef.current = null; }\<close>
\<close>

definition unpublish_audio_005 :: "env \<Rightarrow> config \<Rightarrow> completion" where
  "unpublish_audio_005 env c =
     (case c of (e, w) \<Rightarrow>
        (case audioTrackRef e of
           None \<Rightarrow> (c, None)
         | Some p \<Rightarrow>
             (case pub_track p of
                None \<Rightarrow> (c, None)
              | Some t \<Rightarrow>
                  (case call_unpublish env t w of
                     (w', Some x) \<Rightarrow> ((e, w'), Some x)
                   | (w', None) \<Rightarrow> ((e\<lparr>audioTrackRef := None\<rparr>, w'), None)))))"

text \<open>
  \<open>if (streamRef.current) { getTracks().forEach((track) => track.stop()); streamRef.current = null; }\<close>
\<close>

definition stop_stream :: "config \<Rightarrow> config" where
  "stop_stream c =
     (case c of (e, w) \<Rightarrow>
        (case streamRef e of
           None \<Rightarrow> c
         | Some ms \<Rightarrow> (e\<lparr>streamRef := None\<rparr>, w\<lparr>stopped := stopped w @ getTracks ms\<rparr>)))"

text \<open>
  \<open>setIsSharing(false); options.onTrackUnpublished?.(); if (videoElement) videoElement.pause();\<close>
\<close>

definition mark_stopped :: "config \<Rightarrow> config" where
  "mark_stopped c =
     (case c of (e, w) \<Rightarrow>
        (e\<lparr>eng_isSharing := False\<rparr>,
         w\<lparr>callbacks := callbacks w @ [OnTrackUnpublished],
           element := map_option (\<lambda>v. v\<lparr>el_paused := True\<rparr>) (element w)\<rparr>))"

text \<open>The \<open>catch\<close> block of \<open>stopSharing\<close> and of \<open>startSharing\<close>: \<open>setError\<close>, \<open>onError\<close>.\<close>

definition report_error :: "js_error \<Rightarrow> config \<Rightarrow> config" where
  "report_error err c =
     (case c of (e, w) \<Rightarrow>
        (e\<lparr>eng_error := Some err\<rparr>, w\<lparr>callbacks := callbacks w @ [OnError err]\<rparr>))"

definition stopSharing_try :: "env \<Rightarrow> config \<Rightarrow> completion" where
  "stopSharing_try env c =
     andThen (unpublish_video env (setIsLoading True c)) (\<lambda>c1.
     andThen (unpublish_audio env c1) (\<lambda>c2.
       (mark_stopped (stop_stream c2), None)))"

definition stopSharing :: "env \<Rightarrow> config \<Rightarrow> config" where
  "stopSharing env c =
     (case stopSharing_try env c of
        (c', None) \<Rightarrow> setIsLoading False c'
      | (c', Some x) \<Rightarrow>
          setIsLoading False (report_error (as_error ''Failed to stop sharing'' x) c'))"

definition stopSharing_try_005 :: "env \<Rightarrow> config \<Rightarrow> completion" where
  "stopSharing_try_005 env c =
     andThen (unpublish_video env (setIsLoading True c)) (\<lambda>c1.
     andThen (unpublish_audio_005 env c1) (\<lambda>c2.
       (mark_stopped (stop_stream c2), None)))"

definition stopSharing_005 :: "env \<Rightarrow> config \<Rightarrow> config" where
  "stopSharing_005 env c =
     (case stopSharing_try_005 env c of
        (c', None) \<Rightarrow> setIsLoading False c'
      | (c', Some x) \<Rightarrow>
          setIsLoading False (report_error (as_error ''Failed to stop sharing'' x) c'))"

subsection \<open>\<open>startSharing\<close>\<close>

text \<open>\<open>setIsLoading(true); setError(null);\<close>\<close>

definition begin_start :: "config \<Rightarrow> config" where
  "begin_start c = (case c of (e, w) \<Rightarrow> (e\<lparr>eng_isLoading := True, eng_error := None\<rparr>, w))"

text \<open>
  \<open>videoElement.el_muted = false; videoElement.el_volume = 1.0;
  if (videoElement.paused) { await videoElement.play(); }\<close>
\<close>

definition prepare_element :: "env \<Rightarrow> video_element \<Rightarrow> config \<Rightarrow> completion" where
  "prepare_element env v c =
     (case c of (e, w) \<Rightarrow>
        (let v1 = v\<lparr>el_muted := False, el_volume := 1\<rparr>
         in if el_paused v1
            then (case play env of
                    Some x \<Rightarrow> ((e, w\<lparr>element := Some v1\<rparr>), Some x)
                  | None \<Rightarrow> ((e, w\<lparr>element := Some (v1\<lparr>el_paused := False\<rparr>)\<rparr>), None))
            else ((e, w\<lparr>element := Some v1\<rparr>), None)))"

definition video_options :: "media_stream \<Rightarrow> publish_options" where
  "video_options ms = \<lparr>opt_name = ''shared-video-file'', opt_source = ScreenShare,
     opt_simulcast = Some False, opt_stream = Some (stream_id ms)\<rparr>"

definition audio_options :: "media_stream \<Rightarrow> publish_options" where
  "audio_options ms = \<lparr>opt_name = ''shared-video-audio'', opt_source = Unknown,
     opt_simulcast = None, opt_stream = Some (stream_id ms)\<rparr>"

text \<open>\<open>part_005\<close> passes no \<open>stream\<close> option.\<close>

definition video_options_005 :: publish_options where
  "video_options_005 = \<lparr>opt_name = ''shared-video-file'', opt_source = ScreenShare,
     opt_simulcast = Some False, opt_stream = None\<rparr>"

definition audio_options_005 :: publish_options where
  "audio_options_005 = \<lparr>opt_name = ''shared-video-audio'', opt_source = Unknown,
     opt_simulcast = None, opt_stream = None\<rparr>"

text \<open>
  \<open>if (videoTracks.length > 0) { const videoTrack = await publishTrack(videoTracks[0], ...);
  videoTrackRef.current = videoTrack; }\<close>
\<close>

definition publish_video :: "env \<Rightarrow> publish_options \<Rightarrow> media_stream \<Rightarrow> config \<Rightarrow> completion" where
  "publish_video env opts ms c =
     (case c of (e, w) \<Rightarrow>
        (case videoTracks ms of
           [] \<Rightarrow> (c, None)
         | t # rest \<Rightarrow>
             (case call_publish env t opts w of
                (w', Inl x) \<Rightarrow> ((e, w'), Some x)
              | (w', Inr p) \<Rightarrow> ((e\<lparr>videoTrackRef := Some p\<rparr>, w'), None))))"

text \<open>
  \<open>part_001\<close>: \<open>for (const rawAudioTrack of audioTracks) { const audioTrack = await
  publishTrack(rawAudioTrack, ...); audioTracksRef.current?.push(audioTrack); }\<close>
\<close>

fun publish_each :: "env \<Rightarrow> publish_options \<Rightarrow> track list \<Rightarrow> config \<Rightarrow> completion" where
  "publish_each env opts [] c = (c, None)"
| "publish_each env opts (t # ts) c =
     (case c of (e, w) \<Rightarrow>
        (case call_publish env t opts w of
           (w', Inl x) \<Rightarrow> ((e, w'), Some x)
         | (w', Inr p) \<Rightarrow>
             publish_each env opts ts
               (e\<lparr>audioTracksRef := map_option (\<lambda>ps. ps @ [p]) (audioTracksRef e)\<rparr>, w')))"

text \<open>\<open>if (audioTracks.length > 0) { audioTracksRef.current = []; for ... }\<close>\<close>

definition publish_audio :: "env \<Rightarrow> media_stream \<Rightarrow> config \<Rightarrow> completion" where
  "publish_audio env ms c =
     (case c of (e, w) \<Rightarrow>
        (if audioTracks ms \<noteq> []
         then publish_each env (audio_options ms) (audioTracks ms)
                (e\<lparr>audioTracksRef := Some []\<rparr>, w)
         else (c, None)))"

text \<open>
  \<open>part_005\<close>: \<open>if (audioTracks.length > 0) { const audioTrack = await
  publishTrack(audioTracks[0], ...); audioTrackRef.current = audioTrack; }\<close>
\<close>

definition publish_audio_005 :: "env \<Rightarrow> media_stream \<Rightarrow> config \<Rightarrow> completion" where
  "publish_audio_005 env ms c =
     (case c of (e, w) \<Rightarrow>
        (case audioTracks ms of
           [] \<Rightarrow> (c, None)
         | t # rest \<Rightarrow>
             (case call_publish env t audio_options_005 w of
                (w', Inl x) \<Rightarrow> ((e, w'), Some x)
              | (w', Inr p) \<Rightarrow> ((e\<lparr>audioTrackRef := Some p\<rparr>, w'), None))))"

text \<open>\<open>setIsSharing(true); options.onTrackPublished?.();\<close>\<close>

definition mark_started :: "config \<Rightarrow> config" where
  "mark_started c =
     (case c of (e, w) \<Rightarrow>
        (e\<lparr>eng_isSharing := True\<rparr>, w\<lparr>callbacks := callbacks w @ [OnTrackPublished]\<rparr>))"

definition setStreamRef :: "media_stream \<Rightarrow> config \<Rightarrow> config" where
  "setStreamRef ms c = (case c of (e, w) \<Rightarrow> (e\<lparr>streamRef := Some ms\<rparr>, w))"

text \<open>The \<open>try\<close> block of \<open>startSharing\<close> in \<open>part_001\<close>, for a bound element \<open>v\<close>.\<close>

definition startSharing_try :: "env \<Rightarrow> video_element \<Rightarrow> config \<Rightarrow> completion" where
  "startSharing_try env v c =
     andThen (prepare_element env v (begin_start c)) (\<lambda>c1.
       (case captureStream env 30 of
          Inl x \<Rightarrow> (c1, Some x)
        | Inr ms \<Rightarrow>
            andThen (publish_video env (video_options ms) ms (setStreamRef ms c1)) (\<lambda>c2.
            andThen (publish_audio env ms c2) (\<lambda>c3.
              (mark_started c3, None)))))"

text \<open>
  \<open>startSharing\<close> of \<open>part_001\<close>: the two guards, the \<open>try\<close> block, the \<open>catch\<close> block with
  its compensating \<open>await stopSharing()\<close>, and \<open>finally { setIsLoading(false) }\<close>.
\<close>

definition startSharing :: "env \<Rightarrow> config \<Rightarrow> config" where
  "startSharing env c =
     (case element (snd c) of
        None \<Rightarrow> report_error ''Video element not ready'' c
      | Some v \<Rightarrow>
          if eng_isSharing (fst c) then c
          else (case startSharing_try env v c of
                  (c', None) \<Rightarrow> setIsLoading False c'
                | (c', Some x) \<Rightarrow>
                    setIsLoading False
                      (stopSharing env
                         (report_error (as_error ''Failed to start sharing'' x) c'))))"

definition startSharing_try_005 :: "env \<Rightarrow> video_element \<Rightarrow> config \<Rightarrow> completion" where
  "startSharing_try_005 env v c =
     andThen (prepare_element env v (begin_start c)) (\<lambda>c1.
       (case captureStream env 30 of
          Inl x \<Rightarrow> (c1, Some x)
        | Inr ms \<Rightarrow>
            andThen (publish_video env video_options_005 ms (setStreamRef ms c1)) (\<lambda>c2.
            andThen (publish_audio_005 env ms c2) (\<lambda>c3.
              (mark_started c3, None)))))"

definition startSharing_005 :: "env \<Rightarrow> config \<Rightarrow> config" where
  "startSharing_005 env c =
     (case element (snd c) of
        None \<Rightarrow> report_error ''Video element not ready'' c
      | Some v \<Rightarrow>
          if eng_isSharing (fst c) then c
          else (case startSharing_try_005 env v c of
                  (c', None) \<Rightarrow> setIsLoading False c'
                | (c', Some x) \<Rightarrow>
                    setIsLoading False
                      (stopSharing_005 env
                         (report_error (as_error ''Failed to start sharing'' x) c'))))"

text \<open>
  The engine as \<open>useRef(null)\<close> and \<open>useState\<close> initialise it, and a world in which nothing
  has been called yet.
\<close>

definition initial_engine :: engine where
  "initial_engine = \<lparr>eng_isSharing = False, eng_isLoading = False, eng_error = None,
     videoTrackRef = None, audioTracksRef = None, audioTrackRef = None, streamRef = None\<rparr>"

definition fresh_world :: "video_element option \<Rightarrow> world" where
  "fresh_world v = \<lparr>element = v, publish_log = [], unpublish_log = [], stopped = [],
     callbacks = []\<rparr>"

subsection \<open>Notions the engine's claims are stated with\<close>

text \<open>
  The tracks \<open>stopSharing\<close> passes to \<open>unpublishTrack\<close>, in call order, for the handles an
  engine retains: the video handle first, then the audio handles; a handle without a
  \<open>track\<close> is skipped.
\<close>

fun tracks_of :: "publication list \<Rightarrow> track list" where
  "tracks_of [] = []"
| "tracks_of (p # ps) =
     (case pub_track p of None \<Rightarrow> tracks_of ps | Some t \<Rightarrow> t # tracks_of ps)"

definition handles :: "engine \<Rightarrow> publication list" where
  "handles e = (case videoTrackRef e of None \<Rightarrow> [] | Some p \<Rightarrow> [p]) @
               (case audioTracksRef e of None \<Rightarrow> [] | Some ps \<Rightarrow> ps)"

definition handles_005 :: "engine \<Rightarrow> publication list" where
  "handles_005 e = (case videoTrackRef e of None \<Rightarrow> [] | Some p \<Rightarrow> [p]) @
                   (case audioTrackRef e of None \<Rightarrow> [] | Some p \<Rightarrow> [p])"

text \<open>Idle: no retained video handle, audio handle or stream, in the cells of each copy.\<close>

definition idle :: "engine \<Rightarrow> bool" where
  "idle e = (videoTrackRef e = None \<and> audioTracksRef e = None \<and> streamRef e = None)"

definition idle_005 :: "engine \<Rightarrow> bool" where
  "idle_005 e = (videoTrackRef e = None \<and> audioTrackRef e = None \<and> streamRef e = None)"

text \<open>The retained video handle, if any, carries its \<open>track\<close>.\<close>

definition video_handle_tracked :: "engine \<Rightarrow> bool" where
  "video_handle_tracked e =
     (case videoTrackRef e of None \<Rightarrow> True | Some p \<Rightarrow> pub_track p \<noteq> None)"

text \<open>The publish calls a successful start is expected to have made.\<close>

definition first_video_call :: "publish_options \<Rightarrow> media_stream \<Rightarrow> (track \<times> publish_options) list" where
  "first_video_call opts ms = (case videoTracks ms of [] \<Rightarrow> [] | t # rest \<Rightarrow> [(t, opts)])"

definition first_audio_call_005 :: "media_stream \<Rightarrow> (track \<times> publish_options) list" where
  "first_audio_call_005 ms =
     (case audioTracks ms of [] \<Rightarrow> [] | t # rest \<Rightarrow> [(t, audio_options_005)])"

subsection \<open>Concrete collaborators\<close>

text \<open>
  A captured stream with one video and two audio sub-tracks; a loaded, paused and muted
  element; a session in which every call resolves; one in which the second publish call
  and every unpublish call reject; one in which only the second publish call rejects.
\<close>

definition sample_stream :: media_stream where
  "sample_stream = \<lparr>stream_id = ''s1'', videoTracks = [0], audioTracks = [1, 2]\<rparr>"

definition loaded_element :: video_element where
  "loaded_element = \<lparr>el_muted = True, el_volume = 1 / 2, el_paused = True,
       el_currentTime = 0, el_duration = 60, el_playbackRate = 1\<rparr>"

definition ok_env :: env where
  "ok_env = \<lparr>play = None, captureStream = (\<lambda>fps. Inr sample_stream),
     publishTrack = (\<lambda>n t opts. Inr \<lparr>trackSid = n, pub_track = Some t\<rparr>),
     unpublishTrack = (\<lambda>n t. None)\<rparr>"

definition failing_env :: env where
  "failing_env = \<lparr>play = None, captureStream = (\<lambda>fps. Inr sample_stream),
     publishTrack = (\<lambda>n t opts. if n = 0 then Inr \<lparr>trackSid = 0, pub_track = Some t\<rparr>
                                  else Inl (ErrorObj ''publish failed'')),
     unpublishTrack = (\<lambda>n t. Some (ErrorObj ''unpublish failed''))\<rparr>"

definition rollback_env :: env where
  "rollback_env = \<lparr>play = None, captureStream = (\<lambda>fps. Inr sample_stream),
     publishTrack = (\<lambda>n t opts. if n = 0 then Inr \<lparr>trackSid = 0, pub_track = Some t\<rparr>
                                  else Inl (ErrorObj ''publish failed'')),
     unpublishTrack = (\<lambda>n t. None)\<rparr>"

definition start_config :: config where
  "start_config = (initial_engine, fresh_world (Some loaded_element))"

text \<open>The configuration \<open>startSharing\<close> of \<open>part_001\<close> reaches from \<open>start_config\<close> in \<open>ok_env\<close>.\<close>

definition sharing_engine :: engine where
  "sharing_engine = \<lparr>eng_isSharing = True, eng_isLoading = False, eng_error = None,
     videoTrackRef = Some \<lparr>trackSid = 0, pub_track = Some 0\<rparr>,
     audioTracksRef = Some [\<lparr>trackSid = 1, pub_track = Some 1\<rparr>,
                            \<lparr>trackSid = 2, pub_track = Some 2\<rparr>],
     audioTrackRef = None, streamRef = Some sample_stream\<rparr>"

definition sharing_world :: world where
  "sharing_world = \<lparr>element = Some \<lparr>el_muted = False, el_volume = 1, el_paused = False,
       el_currentTime = 0, el_duration = 60, el_playbackRate = 1\<rparr>,
     publish_log = [(0, video_options sample_stream), (1, audio_options sample_stream),
                    (2, audio_options sample_stream)],
     unpublish_log = [], stopped = [], callbacks = [OnTrackPublished]\<rparr>"

section \<open>PlaybackStateMirror and RemoteControlBridge: the \<open>useVideoControls\<close> hook\<close>

text \<open>
  \<open>packages/react/src/hooks/useVideoControls.ts\<close>. The five \<open>useState\<close> cells are the
  read model. JavaScript numbers are modelled as reals: \<open>NaN\<close>, the infinities and the
  rounding of doubles are outside the model.
\<close>

record read_model =
  isPlaying :: bool
  currentTime :: real
  duration :: real
  volume :: real
  playbackRate :: real

text \<open>
  A handler passed to \<open>room.registerRpcMethod\<close> is a closure over the \<open>isPlaying\<close>,
  \<open>currentTime\<close> and \<open>duration\<close> of the render whose effect created it. A closure is kept
  as the values it captured.
\<close>

datatype rpc_closure = PauseClosure bool | SeekClosure real real

text \<open>
  The result of \<open>String(x)\<close>: the characters for a boolean; for a number the number
  itself, its decimal rendering left symbolic.
\<close>

datatype js_string = Chars string | StringOfNumber real

definition String_of_bool :: "bool \<Rightarrow> js_string" where
  "String_of_bool b = Chars (if b then ''true'' else ''false'')"

definition PAUSE_STREAM_METHOD :: string where
  "PAUSE_STREAM_METHOD = ''PausePlayStream''"

definition SEEK_STREAM_METHOD :: string where
  "SEEK_STREAM_METHOD = ''SeekStream''"

text \<open>
  The hook's state: the read model, whether the five event listeners are attached, and
  the room's registry of RPC methods.
\<close>

record controls =
  model :: read_model
  listening :: bool
  rpc_methods :: "string \<rightharpoonup> rpc_closure"

text \<open>
  The room's side of the registry. \<open>room.registerRpcMethod\<close> of the client library
  installs the handler under a name that is free, and refuses a name that is already
  registered: it throws and leaves the registry as it is. \<open>room.unregisterRpcMethod\<close>
  removes the name.
\<close>

datatype rpc_error = AlreadyRegistered string

definition registerRpcMethod ::
  "string \<Rightarrow> rpc_closure \<Rightarrow> (string \<rightharpoonup> rpc_closure) \<Rightarrow> rpc_error + (string \<rightharpoonup> rpc_closure)" where
  "registerRpcMethod method handler registry =
     (case registry method of
        Some registered \<Rightarrow> Inl (AlreadyRegistered method)
      | None \<Rightarrow> Inr (registry(method \<mapsto> handler)))"

definition unregisterRpcMethod ::
  "string \<Rightarrow> (string \<rightharpoonup> rpc_closure) \<Rightarrow> (string \<rightharpoonup> rpc_closure)" where
  "unregisterRpcMethod method registry = registry(method := None)"

definition initial_controls :: controls where
  "initial_controls =
     \<lparr>model = \<lparr>isPlaying = False, currentTime = 0, duration = 0, volume = 1, playbackRate = 1\<rparr>,
      listening = False, rpc_methods = Map.empty\<rparr>"

text \<open>
  \<open>async (_) => { setIsPlaying(!isPlaying); return String(isPlaying); }\<close> with \<open>isPlaying\<close>
  the captured value.
\<close>

definition pause_handler :: "bool \<Rightarrow> read_model \<Rightarrow> js_string \<times> read_model" where
  "pause_handler captured_isPlaying m =
     (String_of_bool captured_isPlaying, m\<lparr>isPlaying := \<not> captured_isPlaying\<rparr>)"

text \<open>
  \<open>async (data) => { const offset = Number(data.payload);
  setCurrentTime(Math.min(Math.max(0, currentTime + offset), duration));
  return String(currentTime); }\<close> with \<open>currentTime\<close> and \<open>duration\<close> the captured values;
  \<open>offset\<close> is the number the payload denotes.
\<close>

definition seek_handler :: "real \<Rightarrow> real \<Rightarrow> real \<Rightarrow> read_model \<Rightarrow> js_string \<times> read_model" where
  "seek_handler captured_currentTime captured_duration offset m =
     (StringOfNumber captured_currentTime,
      m\<lparr>currentTime := min (max 0 (captured_currentTime + offset)) captured_duration\<rparr>)"

text \<open>
  The body of the effect with the dependencies \<open>[videoElement, videoSharingActive]\<close>, as
  the state it leaves and the error it throws, if any. Without an element (\<open>el\<close> is the
  prop \<open>videoElement\<close>) or while not sharing it unregisters both methods and returns.
  Otherwise it attaches the listeners, registers the two handlers, which capture the
  read model of the render the effect belongs to, and then runs the initial sync from
  the element. A registration the room refuses ends the effect there: what was done
  before stays, the later registration and the initial sync do not happen.
\<close>

definition run_sync_effect ::
  "video_element option \<Rightarrow> bool \<Rightarrow> controls \<Rightarrow> controls \<times> rpc_error option" where
  "run_sync_effect el videoSharingActive s =
     (case el of
        None \<Rightarrow>
          (s\<lparr>rpc_methods := unregisterRpcMethod SEEK_STREAM_METHOD
                  (unregisterRpcMethod PAUSE_STREAM_METHOD (rpc_methods s))\<rparr>, None)
      | Some v \<Rightarrow>
          if \<not> videoSharingActive
          then (s\<lparr>rpc_methods := unregisterRpcMethod SEEK_STREAM_METHOD
                       (unregisterRpcMethod PAUSE_STREAM_METHOD (rpc_methods s))\<rparr>, None)
          else (let s1 = s\<lparr>listening := True\<rparr>
                in case registerRpcMethod PAUSE_STREAM_METHOD
                          (PauseClosure (isPlaying (model s))) (rpc_methods s1) of
                     Inl err \<Rightarrow> (s1, Some err)
                   | Inr registry1 \<Rightarrow>
                       (case registerRpcMethod SEEK_STREAM_METHOD
                               (SeekClosure (currentTime (model s)) (duration (model s)))
                               registry1 of
                          Inl err \<Rightarrow> (s1\<lparr>rpc_methods := registry1\<rparr>, Some err)
                        | Inr registry2 \<Rightarrow>
                            (s1\<lparr>rpc_methods := registry2,
                                model := \<lparr>isPlaying = \<not> el_paused v,
                                          currentTime = el_currentTime v,
                                          duration = el_duration v, volume = el_volume v,
                                          playbackRate = el_playbackRate v\<rparr>\<rparr>, None))))"

text \<open>The state the effect leaves.\<close>

definition sync_effect :: "video_element option \<Rightarrow> bool \<Rightarrow> controls \<Rightarrow> controls" where
  "sync_effect el videoSharingActive s = fst (run_sync_effect el videoSharingActive s)"

text \<open>The cleanup the effect returns: the five \<open>removeEventListener\<close> calls, nothing else.\<close>

definition sync_cleanup :: "controls \<Rightarrow> controls" where
  "sync_cleanup s = s\<lparr>listening := False\<rparr>"

text \<open>
  The element's events, handled by \<open>updateTime\<close>, \<open>updateDuration\<close> and \<open>updatePlaying\<close>
  while the listeners are attached; \<open>v\<close> is the element as it is when the event fires.
\<close>

datatype media_event = TimeUpdate | DurationChange | Play | Pause | Ended

fun update_from :: "media_event \<Rightarrow> video_element \<Rightarrow> read_model \<Rightarrow> read_model" where
  "update_from TimeUpdate v m = m\<lparr>currentTime := el_currentTime v\<rparr>"
| "update_from DurationChange v m = m\<lparr>duration := el_duration v\<rparr>"
| "update_from Play v m = m\<lparr>isPlaying := \<not> el_paused v\<rparr>"
| "update_from Pause v m = m\<lparr>isPlaying := \<not> el_paused v\<rparr>"
| "update_from Ended v m = m\<lparr>isPlaying := \<not> el_paused v\<rparr>"

definition dispatch :: "media_event \<Rightarrow> video_element \<Rightarrow> controls \<Rightarrow> controls" where
  "dispatch ev v s = (if listening s then s\<lparr>model := update_from ev v (model s)\<rparr> else s)"

text \<open>
  A remote participant invokes a method: the room looks the name up and runs the
  registered closure on the read model. An unknown name gets no reply.
\<close>

definition invoke_rpc :: "string \<Rightarrow> real \<Rightarrow> controls \<Rightarrow> js_string option \<times> controls" where
  "invoke_rpc method payload s =
     (case rpc_methods s method of
        None \<Rightarrow> (None, s)
      | Some (PauseClosure p) \<Rightarrow>
          (case pause_handler p (model s) of (reply, m) \<Rightarrow> (Some reply, s\<lparr>model := m\<rparr>))
      | Some (SeekClosure c d) \<Rightarrow>
          (case seek_handler c d payload (model s) of (reply, m) \<Rightarrow> (Some reply, s\<lparr>model := m\<rparr>)))"

text \<open>
  What can happen between two runs of the effect: element events and remote
  invocations. Neither registers a handler.
\<close>

datatype controls_action = Fire media_event video_element | Invoke string real

fun act :: "controls_action \<Rightarrow> controls \<Rightarrow> controls" where
  "act (Fire ev v) s = dispatch ev v s"
| "act (Invoke method payload) s = snd (invoke_rpc method payload s)"

fun acts :: "controls_action list \<Rightarrow> controls \<Rightarrow> controls" where
  "acts [] s = s"
| "acts (a # as) s = acts as (act a s)"

text \<open>
  An element that plays at second 50 of 60, and the hook right after \<open>ShareProvider\<close>
  turned video sharing on for it: the effect ran once, in the first render.
\<close>

definition playing_element :: video_element where
  "playing_element = \<lparr>el_muted = False, el_volume = 1, el_paused = False,
     el_currentTime = 50, el_duration = 60, el_playbackRate = 1\<rparr>"

definition registered_controls :: controls where
  "registered_controls = sync_effect (Some playing_element) True initial_controls"

section \<open>File selection\<close>

text \<open>\<open>s.startsWith(p)\<close>\<close>

definition startsWith :: "string \<Rightarrow> string \<Rightarrow> bool" where
  "startsWith s p = (take (length p) s = p)"

text \<open>
  \<open>VideoFileModal\<close> (and \<open>VideoShareTab\<close> of \<open>part_003\<close>): the selected file and the
  message shown in the error area. \<open>handleFileSelect\<close> gets the input's \<open>FileList\<close>;
  \<open>files?.[0]\<close> is its first entry, if any.
\<close>

record modal_state =
  modal_selectedFile :: "js_file option"
  modal_error :: "string option"

definition handleFileSelect :: "js_file list \<Rightarrow> modal_state \<Rightarrow> modal_state" where
  "handleFileSelect files s =
     (case files of
        [] \<Rightarrow> s
      | f # rest \<Rightarrow>
          if \<not> startsWith (file_type f) ''video/''
          then s\<lparr>modal_error := Some ''Please select a valid video file''\<rparr>
          else s\<lparr>modal_selectedFile := Some f, modal_error := None\<rparr>)"

text \<open>
  The hidden input \<open>ShareProvider\<close> renders in \<open>part_000\<close> and \<open>part_004\<close>:
  \<open>if (file && file.type.startsWith('video/')) { setSelectedFile(file); }\<close>
\<close>

definition provider_onChange :: "js_file list \<Rightarrow> 'h share_state \<Rightarrow> 'h share_state" where
  "provider_onChange files s =
     (case files of
        [] \<Rightarrow> s
      | f # rest \<Rightarrow>
          if startsWith (file_type f) ''video/'' then s\<lparr>selectedFile := Some f\<rparr> else s)"

definition mp4_file :: js_file where
  "mp4_file = \<lparr>file_name = ''talk.mp4'', file_type = ''video/mp4'', file_size = 12582912\<rparr>"

definition png_file :: js_file where
  "png_file = \<lparr>file_name = ''slide.png'', file_type = ''image/png'', file_size = 2048\<rparr>"

definition odd_file :: js_file where
  "odd_file = \<lparr>file_name = ''clip.bin'', file_type = ''videotape/raw'', file_size = 2048\<rparr>"

section \<open>Coordinator: theorems\<close>

lemma stop_of_activeType: "activeType (stop_of v run s) = None"
  by (cases v) (simp_all add: stop_def stop_000_def stop_004_def Let_def)

lemma stop_of_stopHandlerRef:
  "stopHandlerRef (stop_of v run s) = stopHandlerRef (call_stop_handler run s)"
  by (cases v) (simp_all add: stop_def stop_000_def stop_004_def Let_def)

lemma apply_step_invariant:
  "handler_iff_active s \<Longrightarrow> clears_ref run x s \<Longrightarrow> handler_iff_active (apply_step v run x s)"
proof (cases x)
  case Stop
  assume "clears_ref run x s"
  with Stop show ?thesis
    by (simp add: handler_iff_active_def stop_of_activeType stop_of_stopHandlerRef)
next
  case (Declare t h)
  then show ?thesis
    by (cases v) (simp_all add: handler_iff_active_def setStopHandler_def setSharing_def
        setSharing_004_def)
next
  case Undeclare
  then show ?thesis
    by (cases v) (simp_all add: handler_iff_active_def setStopHandler_def setSharing_def
        setSharing_004_def)
qed (simp_all add: handler_iff_active_def open_panel_def close_def toggle_def)

text \<open>
  C1, as stated: after \<open>stop()\<close> the active type is null and the stop handler reference is
  null. The second half fails. After \<open>VideoShareTab\<close> has declared a video share with the
  handler \<open>() => stopSharing()\<close>, \<open>stop()\<close> of \<open>useShare.ts\<close> calls the handler and
  clears \<open>activeType\<close>, and the ref cell still holds the handler. The same happens in
  \<open>part_000\<close> with a handler whose promise rejects.
\<close>

theorem C1_stop_keeps_handler_counterexample:
  "stopHandlerRef (stop run_repo
     (setStopHandler (Some VideoStop) (setSharing True (Some VIDEO) initial_share)))
   = Some VideoStop \<and>
   stopHandlerRef (stop_000 run_repo
     (setStopHandler (Some Failing) (setSharing True (Some VIDEO) initial_share)))
   = Some Failing"
  by (simp add: stop_def stop_000_def call_stop_handler_def setStopHandler_def setSharing_def
      initial_share_def)

text \<open>
  C1, amended: for every coordinator state and every handler behaviour \<open>run\<close>, rejecting
  or not, each of the three \<open>stop()\<close> ends with \<open>activeType\<close> null (and \<open>isSharing\<close> false
  where the copy has it); the rejection is swallowed and never changes the result.
  \<open>stop()\<close> does not write the stop handler reference: the cell holds what the handler
  call left in it, so it is null after \<open>stop()\<close> exactly when it was null before or the
  handler itself cleared it.
\<close>

theorem C1_stop_clears_active_type:
  "activeType (stop run s) = None \<and> isSharing (stop run s) = False \<and>
   activeType (stop_000 run s) = None \<and> isSharing (stop_000 run s) = False \<and>
   activeType (stop_004 run s) = None \<and>
   stopHandlerRef (stop run s) = stopHandlerRef (call_stop_handler run s) \<and>
   stopHandlerRef (stop_000 run s) = stopHandlerRef (call_stop_handler run s) \<and>
   stopHandlerRef (stop_004 run s) = stopHandlerRef (call_stop_handler run s) \<and>
   stop (\<lambda>h t. (True, snd (run h t))) s = stop run s \<and>
   stop_000 (\<lambda>h t. (True, snd (run h t))) s = stop_000 run s \<and>
   stop_004 (\<lambda>h t. (True, snd (run h t))) s = stop_004 run s"
  by (simp add: stop_def stop_000_def stop_004_def call_stop_handler_def Let_def
      split: option.split prod.split)

text \<open>
  C4, as stated: in every state reachable by coordinator operations the stop handler
  reference is non-null iff the active type is non-null. It fails after one operation:
  \<open>setSharing(true, 'screen')\<close> on the initial state sets the active type and leaves the
  ref cell null.
\<close>

theorem C4_invariant_counterexample:
  "\<not> handler_iff_active (setSharing True (Some SCREEN) (initial_share :: repo_handler share_state))"
  by (simp add: handler_iff_active_def setSharing_def initial_share_def)

text \<open>
  C4, amended: the coordinator does not enforce the invariant; it holds as long as the
  callers keep it. It holds in the initial state, and it is kept by every sequence of
  panel toggles, of paired declarations (\<open>setSharing(type)\<close> with \<open>setStopHandler(fn)\<close>,
  \<open>setSharing(null)\<close> with \<open>setStopHandler(null)\<close>) and of \<open>stop()\<close> calls whose handler
  leaves the ref cell null, in each copy of the coordinator.
\<close>

theorem C4_invariant_kept_by_callers:
  "handler_iff_active (initial_share :: 'h share_state) \<and>
   (handler_iff_active s \<longrightarrow> clearing_run v run xs s \<longrightarrow>
      handler_iff_active (caller_steps v run xs s))"
proof
  show "handler_iff_active (initial_share :: 'h share_state)"
    by (simp add: handler_iff_active_def initial_share_def)
  show "handler_iff_active s \<longrightarrow> clearing_run v run xs s \<longrightarrow>
      handler_iff_active (caller_steps v run xs s)"
  proof (induction xs arbitrary: s)
    case Nil
    show ?case by simp
  next
    case (Cons x xs)
    show ?case
    proof (intro impI)
      assume inv: "handler_iff_active s" and adm: "clearing_run v run (x # xs) s"
      from adm have "clears_ref run x s" and rest: "clearing_run v run xs (apply_step v run x s)"
        by simp_all
      with inv have "handler_iff_active (apply_step v run x s)"
        by (simp add: apply_step_invariant)
      with rest Cons.IH show "handler_iff_active (caller_steps v run (x # xs) s)"
        by simp
    qed
  qed
qed

theorem C4_invariant_kept_by_callers_witness:
  "handler_iff_active (initial_share :: repo_handler share_state) \<and>
   clearing_run UseShare run_repo [OpenPanel, Declare SCREEN ScreenStop, ClosePanel, Stop]
     initial_share \<and>
   handler_iff_active (caller_steps UseShare run_repo
     [OpenPanel, Declare SCREEN ScreenStop, ClosePanel, Stop] initial_share) \<and>
   activeType (caller_steps UseShare run_repo
     [OpenPanel, Declare SCREEN ScreenStop, ClosePanel] (initial_share :: repo_handler share_state))
     = Some SCREEN"
  using C4_invariant_kept_by_callers [where v = UseShare and run = run_repo
      and xs = "[OpenPanel, Declare SCREEN ScreenStop, ClosePanel, Stop]" and s = initial_share]
  by (simp add: initial_share_def open_panel_def close_def setStopHandler_def setSharing_def
      call_stop_handler_def stop_def)

section \<open>Engine: theorems\<close>

lemmas stop_defs_005 = stopSharing_005_def stopSharing_try_005_def unpublish_video_def
  unpublish_audio_005_def stop_stream_def mark_stopped_def setIsLoading_def andThen_def
  report_error_def call_unpublish_def

lemmas stop_defs = stopSharing_def stopSharing_try_def unpublish_video_def unpublish_audio_def
  stop_stream_def mark_stopped_def setIsLoading_def andThen_def report_error_def call_unpublish_def

lemma andThen_NoneD:
  "andThen r f = (c', None) \<Longrightarrow> \<exists>c1. r = (c1, None) \<and> f c1 = (c', None)"
  by (cases r) (auto simp: andThen_def split: option.splits)

lemma andThen_SomeD:
  "andThen r f = (c', Some x) \<Longrightarrow> r = (c', Some x) \<or> (\<exists>c1. r = (c1, None) \<and> f c1 = (c', Some x))"
  by (cases r) (auto simp: andThen_def split: option.splits)

lemma prepare_element_frame:
  "prepare_element env v (e, w) = ((e1, w1), r) \<Longrightarrow>
     e1 = e \<and> publish_log w1 = publish_log w \<and> callbacks w1 = callbacks w \<and>
     unpublish_log w1 = unpublish_log w \<and> stopped w1 = stopped w"
  by (auto simp: prepare_element_def Let_def split: if_splits option.splits)

lemma publish_video_frame:
  "publish_video env opts ms (e, w) = ((e1, w1), r) \<Longrightarrow>
     eng_isSharing e1 = eng_isSharing e \<and> callbacks w1 = callbacks w \<and>
     unpublish_log w1 = unpublish_log w \<and> stopped w1 = stopped w \<and> streamRef e1 = streamRef e \<and>
     audioTracksRef e1 = audioTracksRef e"
  by (auto simp: publish_video_def call_publish_def split: list.splits sum.splits)

lemma publish_video_log:
  "publish_video env opts ms (e, w) = ((e1, w1), None) \<Longrightarrow>
     publish_log w1 = publish_log w @ first_video_call opts ms"
  by (auto simp: publish_video_def call_publish_def first_video_call_def split: list.splits sum.splits)

lemma publish_each_frame:
  "publish_each env opts ts (e, w) = ((e1, w1), r) \<Longrightarrow>
     eng_isSharing e1 = eng_isSharing e \<and> callbacks w1 = callbacks w \<and>
     unpublish_log w1 = unpublish_log w \<and> stopped w1 = stopped w \<and> streamRef e1 = streamRef e \<and>
     videoTrackRef e1 = videoTrackRef e"
proof (induction ts arbitrary: e w)
  case Nil
  then show ?case by simp
next
  case (Cons t ts)
  show ?case
  proof (cases "publishTrack env (length (publish_log w)) t opts")
    case (Inl y)
    with Cons.prems show ?thesis by (auto simp: call_publish_def)
  next
    case (Inr p)
    with Cons.prems have
      "publish_each env opts ts
         (e\<lparr>audioTracksRef := map_option (\<lambda>ps. ps @ [p]) (audioTracksRef e)\<rparr>,
          w\<lparr>publish_log := publish_log w @ [(t, opts)]\<rparr>) = ((e1, w1), r)"
      by (simp add: call_publish_def)
    from Cons.IH [OF this] show ?thesis by simp
  qed
qed

lemma publish_each_log:
  "publish_each env opts ts (e, w) = ((e1, w1), None) \<Longrightarrow>
     publish_log w1 = publish_log w @ map (\<lambda>t. (t, opts)) ts \<and>
     map_option length (audioTracksRef e1) =
       map_option (\<lambda>ps. length ps + length ts) (audioTracksRef e)"
proof (induction ts arbitrary: e w)
  case Nil
  then show ?case by (simp add: option.map_ident)
next
  case (Cons t ts)
  show ?case
  proof (cases "publishTrack env (length (publish_log w)) t opts")
    case (Inl y)
    with Cons.prems show ?thesis by (auto simp: call_publish_def)
  next
    case (Inr p)
    with Cons.prems have
      "publish_each env opts ts
         (e\<lparr>audioTracksRef := map_option (\<lambda>ps. ps @ [p]) (audioTracksRef e)\<rparr>,
          w\<lparr>publish_log := publish_log w @ [(t, opts)]\<rparr>) = ((e1, w1), None)"
      by (simp add: call_publish_def)
    from Cons.IH [OF this] show ?thesis by (cases "audioTracksRef e") simp_all
  qed
qed

lemma publish_audio_frame:
  "publish_audio env ms (e, w) = ((e1, w1), r) \<Longrightarrow>
     eng_isSharing e1 = eng_isSharing e \<and> callbacks w1 = callbacks w \<and>
     unpublish_log w1 = unpublish_log w \<and> stopped w1 = stopped w \<and> streamRef e1 = streamRef e \<and>
     videoTrackRef e1 = videoTrackRef e"
  by (auto simp: publish_audio_def split: if_splits dest!: publish_each_frame)

lemma publish_audio_log:
  "publish_audio env ms (e, w) = ((e1, w1), None) \<Longrightarrow>
     publish_log w1 = publish_log w @ map (\<lambda>t. (t, audio_options ms)) (audioTracks ms) \<and>
     (audioTracks ms \<noteq> [] \<longrightarrow>
        map_option length (audioTracksRef e1) = Some (length (audioTracks ms)))"
  by (auto simp: publish_audio_def split: if_splits dest!: publish_each_log)

lemma startSharing_try_ok:
  assumes "startSharing_try env v (e, w) = ((e', w'), None)"
    and "captureStream env 30 = Inr ms"
  shows "eng_isSharing e' \<and>
     publish_log w' = publish_log w @ first_video_call (video_options ms) ms @
        map (\<lambda>t. (t, audio_options ms)) (audioTracks ms) \<and>
     callbacks w' = callbacks w @ [OnTrackPublished] \<and> streamRef e' = Some ms \<and>
     (audioTracks ms \<noteq> [] \<longrightarrow>
        map_option length (audioTracksRef e') = Some (length (audioTracks ms)))"
proof -
  from assms(1) have "\<exists>c1. prepare_element env v (begin_start (e, w)) = (c1, None) \<and>
      (case captureStream env 30 of Inl x \<Rightarrow> (c1, Some x)
       | Inr ms \<Rightarrow>
          andThen (publish_video env (video_options ms) ms (setStreamRef ms c1)) (\<lambda>c2.
            andThen (publish_audio env ms c2) (\<lambda>c3. (mark_started c3, None)))) = ((e', w'), None)"
    unfolding startSharing_try_def by (rule andThen_NoneD)
  with assms(2) obtain c1 where
    c1: "prepare_element env v (begin_start (e, w)) = (c1, None)" and
    r1: "andThen (publish_video env (video_options ms) ms (setStreamRef ms c1)) (\<lambda>c2.
            andThen (publish_audio env ms c2) (\<lambda>c3. (mark_started c3, None))) = ((e', w'), None)"
    by auto
  from andThen_NoneD [OF r1] obtain c2 where
    c2: "publish_video env (video_options ms) ms (setStreamRef ms c1) = (c2, None)" and
    r2: "andThen (publish_audio env ms c2) (\<lambda>c3. (mark_started c3, None)) = ((e', w'), None)"
    by blast
  from andThen_NoneD [OF r2] obtain c3 where
    c3: "publish_audio env ms c2 = (c3, None)" and
    fin: "mark_started c3 = (e', w')"
    by blast
  obtain ea wa where c1_eq: "c1 = (ea, wa)" by (cases c1)
  obtain eb wb where c2_eq: "c2 = (eb, wb)" by (cases c2)
  obtain ec wc where c3_eq: "c3 = (ec, wc)" by (cases c3)
  from c1 c1_eq have a: "publish_log wa = publish_log w" "callbacks wa = callbacks w"
    using prepare_element_frame [of env v "e\<lparr>eng_isLoading := True, eng_error := None\<rparr>" w ea wa None]
    by (simp_all add: begin_start_def)
  from c2 c1_eq c2_eq have b: "publish_log wb = publish_log wa @ first_video_call (video_options ms) ms"
      "callbacks wb = callbacks wa" "streamRef eb = Some ms"
    using publish_video_log [of env "video_options ms" ms "ea\<lparr>streamRef := Some ms\<rparr>" wa eb wb]
      publish_video_frame [of env "video_options ms" ms "ea\<lparr>streamRef := Some ms\<rparr>" wa eb wb None]
    by (simp_all add: setStreamRef_def)
  from c3 c2_eq c3_eq have c:
      "publish_log wc = publish_log wb @ map (\<lambda>t. (t, audio_options ms)) (audioTracks ms)"
      "callbacks wc = callbacks wb" "streamRef ec = streamRef eb"
      "audioTracks ms \<noteq> [] \<longrightarrow> map_option length (audioTracksRef ec) = Some (length (audioTracks ms))"
    using publish_audio_log [of env ms eb wb ec wc] publish_audio_frame [of env ms eb wb ec wc None]
    by simp_all
  from fin c3_eq have "e' = ec\<lparr>eng_isSharing := True\<rparr>"
      "w' = wc\<lparr>callbacks := callbacks wc @ [OnTrackPublished]\<rparr>"
    by (simp_all add: mark_started_def)
  with a b c show ?thesis by simp
qed

lemma publish_audio_005_frame:
  "publish_audio_005 env ms (e, w) = ((e1, w1), r) \<Longrightarrow>
     eng_isSharing e1 = eng_isSharing e \<and> callbacks w1 = callbacks w \<and>
     unpublish_log w1 = unpublish_log w \<and> stopped w1 = stopped w \<and> streamRef e1 = streamRef e \<and>
     videoTrackRef e1 = videoTrackRef e"
  by (auto simp: publish_audio_005_def call_publish_def split: list.splits sum.splits)

lemma publish_audio_005_log:
  "publish_audio_005 env ms (e, w) = ((e1, w1), None) \<Longrightarrow>
     publish_log w1 = publish_log w @ first_audio_call_005 ms"
  by (auto simp: publish_audio_005_def call_publish_def first_audio_call_005_def
      split: list.splits sum.splits)

lemma startSharing_try_005_ok:
  assumes "startSharing_try_005 env v (e, w) = ((e', w'), None)"
    and "captureStream env 30 = Inr ms"
  shows "eng_isSharing e' \<and>
     publish_log w' = publish_log w @ first_video_call video_options_005 ms @
        first_audio_call_005 ms \<and>
     callbacks w' = callbacks w @ [OnTrackPublished] \<and> streamRef e' = Some ms"
proof -
  from assms(1) have "\<exists>c1. prepare_element env v (begin_start (e, w)) = (c1, None) \<and>
      (case captureStream env 30 of Inl x \<Rightarrow> (c1, Some x)
       | Inr ms \<Rightarrow>
          andThen (publish_video env video_options_005 ms (setStreamRef ms c1)) (\<lambda>c2.
            andThen (publish_audio_005 env ms c2) (\<lambda>c3. (mark_started c3, None)))) = ((e', w'), None)"
    unfolding startSharing_try_005_def by (rule andThen_NoneD)
  with assms(2) obtain c1 where
    c1: "prepare_element env v (begin_start (e, w)) = (c1, None)" and
    r1: "andThen (publish_video env video_options_005 ms (setStreamRef ms c1)) (\<lambda>c2.
            andThen (publish_audio_005 env ms c2) (\<lambda>c3. (mark_started c3, None))) = ((e', w'), None)"
    by auto
  from andThen_NoneD [OF r1] obtain c2 where
    c2: "publish_video env video_options_005 ms (setStreamRef ms c1) = (c2, None)" and
    r2: "andThen (publish_audio_005 env ms c2) (\<lambda>c3. (mark_started c3, None)) = ((e', w'), None)"
    by blast
  from andThen_NoneD [OF r2] obtain c3 where
    c3: "publish_audio_005 env ms c2 = (c3, None)" and
    fin: "mark_started c3 = (e', w')"
    by blast
  obtain ea wa where c1_eq: "c1 = (ea, wa)" by (cases c1)
  obtain eb wb where c2_eq: "c2 = (eb, wb)" by (cases c2)
  obtain ec wc where c3_eq: "c3 = (ec, wc)" by (cases c3)
  from c1 c1_eq have a: "publish_log wa = publish_log w" "callbacks wa = callbacks w"
    using prepare_element_frame [of env v "e\<lparr>eng_isLoading := True, eng_error := None\<rparr>" w ea wa None]
    by (simp_all add: begin_start_def)
  from c2 c1_eq c2_eq have b: "publish_log wb = publish_log wa @ first_video_call video_options_005 ms"
      "callbacks wb = callbacks wa" "streamRef eb = Some ms"
    using publish_video_log [of env video_options_005 ms "ea\<lparr>streamRef := Some ms\<rparr>" wa eb wb]
      publish_video_frame [of env video_options_005 ms "ea\<lparr>streamRef := Some ms\<rparr>" wa eb wb None]
    by (simp_all add: setStreamRef_def)
  from c3 c2_eq c3_eq have c:
      "publish_log wc = publish_log wb @ first_audio_call_005 ms"
      "callbacks wc = callbacks wb" "streamRef ec = streamRef eb"
    using publish_audio_005_log [of env ms eb wb ec wc] publish_audio_005_frame [of env ms eb wb ec wc None]
    by simp_all
  from fin c3_eq have "e' = ec\<lparr>eng_isSharing := True\<rparr>"
      "w' = wc\<lparr>callbacks := callbacks wc @ [OnTrackPublished]\<rparr>"
    by (simp_all add: mark_started_def)
  with a b c show ?thesis by simp
qed

lemma unpublish_each_ok:
  "\<forall>n t. unpublishTrack env n t = None \<Longrightarrow>
   unpublish_each env ps w = (w\<lparr>unpublish_log := unpublish_log w @ tracks_of ps\<rparr>, None)"
  by (induction ps arbitrary: w) (auto simp: call_unpublish_def split: option.splits)

lemma stopSharing_clean:
  assumes "\<forall>n t. unpublishTrack env n t = None" and "video_handle_tracked e"
  shows "videoTrackRef (fst (stopSharing env (e, w))) = None \<and>
         audioTracksRef (fst (stopSharing env (e, w))) = None \<and>
         streamRef (fst (stopSharing env (e, w))) = None \<and>
         \<not> eng_isSharing (fst (stopSharing env (e, w))) \<and>
         \<not> eng_isLoading (fst (stopSharing env (e, w))) \<and>
         eng_error (fst (stopSharing env (e, w))) = eng_error e \<and>
         callbacks (snd (stopSharing env (e, w))) = callbacks w @ [OnTrackUnpublished]"
  using assms
  by (auto simp: stop_defs video_handle_tracked_def unpublish_each_ok split: option.splits)

lemma startSharing_try_throw_frame:
  assumes "startSharing_try env v (e, w) = ((e1, w1), Some x)"
  shows "callbacks w1 = callbacks w"
proof -
  obtain ea wa ra where p: "prepare_element env v (begin_start (e, w)) = ((ea, wa), ra)"
    by (metis surj_pair)
  then have a: "callbacks wa = callbacks w"
    using prepare_element_frame [of env v "e\<lparr>eng_isLoading := True, eng_error := None\<rparr>" w ea wa ra]
    by (simp add: begin_start_def)
  show ?thesis
  proof (cases ra)
    case (Some y)
    with assms p a show ?thesis by (simp add: startSharing_try_def andThen_def)
  next
    case None
    show ?thesis
    proof (cases "captureStream env 30")
      case (Inl y)
      with assms p a None show ?thesis by (simp add: startSharing_try_def andThen_def)
    next
      case (Inr ms)
      obtain eb wb rb where q:
        "publish_video env (video_options ms) ms (ea\<lparr>streamRef := Some ms\<rparr>, wa) = ((eb, wb), rb)"
        by (metis surj_pair)
      from publish_video_frame [OF q] have b: "callbacks wb = callbacks wa" by simp
      obtain ec wc rc where r: "publish_audio env ms (eb, wb) = ((ec, wc), rc)"
        by (metis surj_pair)
      from publish_audio_frame [OF r] have c: "callbacks wc = callbacks wb" by simp
      from assms p None Inr q r a b c show ?thesis
        by (cases rb; cases rc) (simp_all add: startSharing_try_def andThen_def setStreamRef_def)
    qed
  qed
qed

lemma unpublish_each_first_throws:
  "tracks_of ps = t # ts \<Longrightarrow> unpublishTrack env (length (unpublish_log w)) t = Some x \<Longrightarrow>
   unpublish_each env ps w = (w\<lparr>unpublish_log := unpublish_log w @ [t]\<rparr>, Some x)"
  by (induction ps) (auto simp: call_unpublish_def split: option.splits)

lemma unpublish_video_skip:
  "tracks_of (case videoTrackRef e of None \<Rightarrow> [] | Some p \<Rightarrow> [p]) = [] \<Longrightarrow>
   unpublish_video env (e, w) = ((e, w), None)"
  by (simp add: unpublish_video_def split: option.splits)

lemma unpublish_video_call:
  "tracks_of (case videoTrackRef e of None \<Rightarrow> [] | Some p \<Rightarrow> [p]) = t # ts \<Longrightarrow>
   unpublish_video env (e, w) =
     (case unpublishTrack env (length (unpublish_log w)) t of
        Some x \<Rightarrow> ((e, w\<lparr>unpublish_log := unpublish_log w @ [t]\<rparr>), Some x)
      | None \<Rightarrow> ((e\<lparr>videoTrackRef := None\<rparr>, w\<lparr>unpublish_log := unpublish_log w @ [t]\<rparr>), None))"
  by (auto simp: unpublish_video_def call_unpublish_def split: option.splits)

lemma tracks_of_append: "tracks_of (ps @ qs) = tracks_of ps @ tracks_of qs"
  by (induction ps) (simp_all split: option.splits)

lemma stopSharing_caught:
  "stopSharing_try env c = (c', Some x) \<Longrightarrow>
   stopSharing env c = setIsLoading False (report_error (as_error ''Failed to stop sharing'' x) c')"
  by (simp add: stopSharing_def)

lemma stop_first_throws:
  assumes "tracks_of (handles e) = t # ts"
    and "unpublishTrack env (length (unpublish_log w)) t = Some x"
  shows "stopSharing env (e, w) =
     (e\<lparr>eng_isLoading := False, eng_error := Some (as_error ''Failed to stop sharing'' x)\<rparr>,
      w\<lparr>unpublish_log := unpublish_log w @ [t],
        callbacks := callbacks w @ [OnError (as_error ''Failed to stop sharing'' x)]\<rparr>)"
proof -
  let ?e = "e\<lparr>eng_isLoading := True\<rparr>"
  let ?w = "w\<lparr>unpublish_log := unpublish_log w @ [t]\<rparr>"
  have "stopSharing_try env (e, w) = ((?e, ?w), Some x)"
  proof (cases "tracks_of (case videoTrackRef e of None \<Rightarrow> [] | Some p \<Rightarrow> [p])")
    case Nil
    then have v: "unpublish_video env (?e, w) = ((?e, w), None)"
      by (simp add: unpublish_video_skip)
    from Nil assms(1) obtain ps where ps: "audioTracksRef e = Some ps" "tracks_of ps = t # ts"
      by (cases "audioTracksRef e") (simp_all add: handles_def tracks_of_append)
    with assms(2) have "unpublish_audio env (?e, w) = ((?e, ?w), Some x)"
      by (simp add: unpublish_audio_def unpublish_each_first_throws)
    with v show ?thesis by (simp add: stopSharing_try_def setIsLoading_def andThen_def)
  next
    case (Cons t' ts')
    with assms(1) have "t' = t" by (simp add: handles_def tracks_of_append)
    with Cons have "tracks_of (case videoTrackRef ?e of None \<Rightarrow> [] | Some p \<Rightarrow> [p]) = t # ts'"
      by simp
    from unpublish_video_call [OF this, of env w] assms(2)
    have "unpublish_video env (?e, w) = ((?e, ?w), Some x)" by simp
    then show ?thesis by (simp add: stopSharing_try_def setIsLoading_def andThen_def)
  qed
  then show ?thesis
    by (simp add: stopSharing_caught setIsLoading_def report_error_def)
qed

lemma unpublish_audio_005_call:
  "tracks_of (case audioTrackRef e of None \<Rightarrow> [] | Some p \<Rightarrow> [p]) = t # ts \<Longrightarrow>
   unpublish_audio_005 env (e, w) =
     (case unpublishTrack env (length (unpublish_log w)) t of
        Some x \<Rightarrow> ((e, w\<lparr>unpublish_log := unpublish_log w @ [t]\<rparr>), Some x)
      | None \<Rightarrow> ((e\<lparr>audioTrackRef := None\<rparr>, w\<lparr>unpublish_log := unpublish_log w @ [t]\<rparr>), None))"
  by (auto simp: unpublish_audio_005_def call_unpublish_def split: option.splits)

lemma stopSharing_005_caught:
  "stopSharing_try_005 env c = (c', Some x) \<Longrightarrow>
   stopSharing_005 env c =
     setIsLoading False (report_error (as_error ''Failed to stop sharing'' x) c')"
  by (simp add: stopSharing_005_def)

lemma stop_first_throws_005:
  assumes "tracks_of (handles_005 e) = t # ts"
    and "unpublishTrack env (length (unpublish_log w)) t = Some x"
  shows "stopSharing_005 env (e, w) =
     (e\<lparr>eng_isLoading := False, eng_error := Some (as_error ''Failed to stop sharing'' x)\<rparr>,
      w\<lparr>unpublish_log := unpublish_log w @ [t],
        callbacks := callbacks w @ [OnError (as_error ''Failed to stop sharing'' x)]\<rparr>)"
proof -
  let ?e = "e\<lparr>eng_isLoading := True\<rparr>"
  let ?w = "w\<lparr>unpublish_log := unpublish_log w @ [t]\<rparr>"
  have "stopSharing_try_005 env (e, w) = ((?e, ?w), Some x)"
  proof (cases "tracks_of (case videoTrackRef e of None \<Rightarrow> [] | Some p \<Rightarrow> [p])")
    case Nil
    then have v: "unpublish_video env (?e, w) = ((?e, w), None)"
      by (simp add: unpublish_video_skip)
    from Nil assms(1)
    have "tracks_of (case audioTrackRef ?e of None \<Rightarrow> [] | Some p \<Rightarrow> [p]) = t # ts"
      by (simp add: handles_005_def tracks_of_append)
    from unpublish_audio_005_call [OF this, of env w] assms(2)
    have "unpublish_audio_005 env (?e, w) = ((?e, ?w), Some x)" by simp
    with v show ?thesis by (simp add: stopSharing_try_005_def setIsLoading_def andThen_def)
  next
    case (Cons t' ts')
    with assms(1) have "t' = t" by (simp add: handles_005_def tracks_of_append)
    with Cons have "tracks_of (case videoTrackRef ?e of None \<Rightarrow> [] | Some p \<Rightarrow> [p]) = t # ts'"
      by simp
    from unpublish_video_call [OF this, of env w] assms(2)
    have "unpublish_video env (?e, w) = ((?e, ?w), Some x)" by simp
    then show ?thesis by (simp add: stopSharing_try_005_def setIsLoading_def andThen_def)
  qed
  then show ?thesis
    by (simp add: stopSharing_005_caught setIsLoading_def report_error_def)
qed

subsection \<open>Runs of the engine on the concrete collaborators\<close>

lemmas start_defs = startSharing_def startSharing_try_def prepare_element_def begin_start_def
  setStreamRef_def publish_video_def publish_audio_def mark_started_def call_publish_def
  andThen_def setIsLoading_def report_error_def as_error_def

lemmas start_defs_005 = startSharing_005_def startSharing_try_005_def prepare_element_def
  begin_start_def setStreamRef_def publish_video_def publish_audio_005_def mark_started_def
  call_publish_def andThen_def setIsLoading_def report_error_def as_error_def

lemmas sample_defs = start_config_def initial_engine_def fresh_world_def loaded_element_def
  sample_stream_def

lemma try_in_ok_env:
  "startSharing_try ok_env loaded_element start_config =
     ((sharing_engine\<lparr>eng_isLoading := True\<rparr>, sharing_world), None)"
  by (simp add: start_defs sample_defs ok_env_def sharing_engine_def sharing_world_def)

lemma start_in_ok_env: "startSharing ok_env start_config = (sharing_engine, sharing_world)"
  by (simp add: start_defs sample_defs ok_env_def sharing_engine_def sharing_world_def)

lemma try_005_in_ok_env:
  "snd (startSharing_try_005 ok_env loaded_element start_config) = None"
  by (simp add: start_defs_005 sample_defs ok_env_def)

lemma try_in_rollback_env:
  "startSharing_try rollback_env loaded_element start_config =
     ((initial_engine\<lparr>eng_isLoading := True, streamRef := Some sample_stream,
         videoTrackRef := Some \<lparr>trackSid = 0, pub_track = Some 0\<rparr>,
         audioTracksRef := Some []\<rparr>,
       \<lparr>element = Some \<lparr>el_muted = False, el_volume = 1, el_paused = False,
       el_currentTime = 0, el_duration = 60, el_playbackRate = 1\<rparr>,
        publish_log = [(0, video_options sample_stream), (1, audio_options sample_stream)],
        unpublish_log = [], stopped = [], callbacks = []\<rparr>),
      Some (ErrorObj ''publish failed''))"
  by (simp add: start_defs sample_defs rollback_env_def)

subsection \<open>C2: the publish calls of a successful start\<close>

text \<open>
  C2, as stated: after a successful \<open>startSharing()\<close> one publish call was made per audio
  sub-track, every one and not only the first. That is \<open>startSharing\<close> of \<open>part_001\<close>. The
  copy in \<open>part_005\<close> publishes \<open>audioTracks[0]\<close> only: on a captured stream with the
  audio sub-tracks 1 and 2 the start succeeds with publish calls for the video track 0
  and the audio track 1, and none for the audio track 2.
\<close>

theorem C2_single_audio_counterexample:
  "eng_isSharing (fst (startSharing_005 ok_env start_config)) \<and>
   captureStream ok_env 30 = Inr sample_stream \<and>
   audioTracks sample_stream = [1, 2] \<and>
   map fst (publish_log (snd (startSharing_005 ok_env start_config))) = [0, 1]"
  by (simp add: start_defs_005 sample_defs ok_env_def)

text \<open>
  C2, amended: for every captured stream \<open>ms\<close>, when \<open>startSharing()\<close> runs on a bound
  element with the engine not sharing and its \<open>try\<close> block completes, \<open>isSharing\<close> is true
  and the publish calls made are exactly: one for the first video sub-track, if there is
  one, under the name \<open>shared-video-file\<close> with the screen-share source and simulcast
  off; then, in the copy that keeps a list of audio handles (\<open>part_001\<close>), one per audio
  sub-track in order, and in the copy that keeps a single audio handle (\<open>part_005\<close>), one
  for the first audio sub-track only; each audio call under the name
  \<open>shared-video-audio\<close>.
\<close>

theorem C2_publish_calls:
  assumes "element w = Some v" and "\<not> eng_isSharing e" and "captureStream env 30 = Inr ms"
  shows "(snd (startSharing_try env v (e, w)) = None \<longrightarrow>
            eng_isSharing (fst (startSharing env (e, w))) \<and>
            publish_log (snd (startSharing env (e, w))) =
              publish_log w @ first_video_call (video_options ms) ms @
                map (\<lambda>t. (t, audio_options ms)) (audioTracks ms)) \<and>
         (snd (startSharing_try_005 env v (e, w)) = None \<longrightarrow>
            eng_isSharing (fst (startSharing_005 env (e, w))) \<and>
            publish_log (snd (startSharing_005 env (e, w))) =
              publish_log w @ first_video_call video_options_005 ms @ first_audio_call_005 ms) \<and>
         opt_name (video_options ms) = ''shared-video-file'' \<and>
         opt_source (video_options ms) = ScreenShare \<and>
         opt_simulcast (video_options ms) = Some False \<and>
         opt_name (audio_options ms) = ''shared-video-audio'' \<and>
         opt_name video_options_005 = ''shared-video-file'' \<and>
         opt_source video_options_005 = ScreenShare \<and>
         opt_simulcast video_options_005 = Some False \<and>
         opt_name audio_options_005 = ''shared-video-audio''"
proof -
  have one: "eng_isSharing (fst (startSharing env (e, w))) \<and>
            publish_log (snd (startSharing env (e, w))) =
              publish_log w @ first_video_call (video_options ms) ms @
                map (\<lambda>t. (t, audio_options ms)) (audioTracks ms)"
    if ok: "snd (startSharing_try env v (e, w)) = None"
  proof -
    obtain e' w' where tr: "startSharing_try env v (e, w) = ((e', w'), None)"
      using ok by (cases "startSharing_try env v (e, w)") auto
    from assms tr have "startSharing env (e, w) = (e'\<lparr>eng_isLoading := False\<rparr>, w')"
      by (simp add: startSharing_def setIsLoading_def)
    with startSharing_try_ok [OF tr assms(3)] show ?thesis by simp
  qed
  have five: "eng_isSharing (fst (startSharing_005 env (e, w))) \<and>
            publish_log (snd (startSharing_005 env (e, w))) =
              publish_log w @ first_video_call video_options_005 ms @ first_audio_call_005 ms"
    if ok: "snd (startSharing_try_005 env v (e, w)) = None"
  proof -
    obtain e' w' where tr: "startSharing_try_005 env v (e, w) = ((e', w'), None)"
      using ok by (cases "startSharing_try_005 env v (e, w)") auto
    from assms tr have "startSharing_005 env (e, w) = (e'\<lparr>eng_isLoading := False\<rparr>, w')"
      by (simp add: startSharing_005_def setIsLoading_def)
    with startSharing_try_005_ok [OF tr assms(3)] show ?thesis by simp
  qed
  from one five show ?thesis
    by (simp add: video_options_def audio_options_def video_options_005_def audio_options_005_def)
qed

theorem C2_publish_calls_witness:
  "element (fresh_world (Some loaded_element)) = Some loaded_element \<and>
   \<not> eng_isSharing initial_engine \<and>
   captureStream ok_env 30 = Inr sample_stream \<and>
   snd (startSharing_try ok_env loaded_element start_config) = None \<and>
   snd (startSharing_try_005 ok_env loaded_element start_config) = None \<and>
   eng_isSharing (fst (startSharing ok_env start_config)) \<and>
   publish_log (snd (startSharing ok_env start_config)) =
     [(0, video_options sample_stream), (1, audio_options sample_stream),
      (2, audio_options sample_stream)] \<and>
   eng_isSharing (fst (startSharing_005 ok_env start_config)) \<and>
   publish_log (snd (startSharing_005 ok_env start_config)) =
     [(0, video_options_005), (1, audio_options_005)]"
proof -
  have h: "element (fresh_world (Some loaded_element)) = Some loaded_element"
    "\<not> eng_isSharing initial_engine" "captureStream ok_env 30 = Inr sample_stream"
    by (simp_all add: fresh_world_def initial_engine_def ok_env_def)
  have t: "snd (startSharing_try ok_env loaded_element start_config) = None"
    by (simp add: try_in_ok_env)
  from C2_publish_calls [OF h] t try_005_in_ok_env h show ?thesis
    by (simp add: start_config_def first_video_call_def first_audio_call_005_def
        fresh_world_def sample_stream_def)
qed

subsection \<open>C3: a start that fails\<close>

text \<open>
  C3, as stated: whenever a publish call inside \<open>startSharing()\<close> throws, the engine ends
  with no retained stream or handles and \<open>onError\<close> fired exactly once. The compensating
  \<open>stopSharing()\<close> has a \<open>catch\<close> of its own. With the video track published, the first
  audio publish rejecting and the unpublish of the video track rejecting too, the engine
  keeps the video handle and the stream, and \<open>onError\<close> fires twice.
\<close>

theorem C3_compensation_fails_counterexample:
  "videoTrackRef (fst (startSharing failing_env start_config)) =
     Some \<lparr>trackSid = 0, pub_track = Some 0\<rparr> \<and>
   streamRef (fst (startSharing failing_env start_config)) = Some sample_stream \<and>
   callbacks (snd (startSharing failing_env start_config)) =
     [OnError ''publish failed'', OnError ''unpublish failed'']"
  by (simp add: start_defs stop_defs sample_defs failing_env_def)

text \<open>
  C3, amended: when the \<open>try\<close> block of \<open>startSharing()\<close> throws (a publish call that
  rejects, in particular) and, in the compensating \<open>stopSharing()\<close>, no unpublish call
  rejects and the video handle retained at the throw, if any, carries its track, then
  \<open>startSharing()\<close> returns with \<open>isSharing\<close> false, no retained stream, video handle or
  audio handles, and the callbacks fired are \<open>onError\<close>, once, with the start failure,
  followed by \<open>onTrackUnpublished\<close>.
\<close>

theorem C3_failed_start_rolls_back:
  assumes "element w = Some v" and "\<not> eng_isSharing e"
    and "snd (startSharing_try env v (e, w)) = Some x"
    and "\<forall>n t. unpublishTrack env n t = None"
    and "video_handle_tracked (fst (fst (startSharing_try env v (e, w))))"
  shows "\<not> eng_isSharing (fst (startSharing env (e, w))) \<and>
         videoTrackRef (fst (startSharing env (e, w))) = None \<and>
         audioTracksRef (fst (startSharing env (e, w))) = None \<and>
         streamRef (fst (startSharing env (e, w))) = None \<and>
         eng_error (fst (startSharing env (e, w))) = Some (as_error ''Failed to start sharing'' x) \<and>
         callbacks (snd (startSharing env (e, w))) =
           callbacks w @ [OnError (as_error ''Failed to start sharing'' x), OnTrackUnpublished]"
proof -
  obtain e1 w1 where tr: "startSharing_try env v (e, w) = ((e1, w1), Some x)"
    using assms(3) by (cases "startSharing_try env v (e, w)") auto
  let ?err = "as_error ''Failed to start sharing'' x"
  let ?e2 = "e1\<lparr>eng_error := Some ?err\<rparr>"
  let ?w2 = "w1\<lparr>callbacks := callbacks w1 @ [OnError ?err]\<rparr>"
  from assms(1,2) tr
  have run: "startSharing env (e, w) = setIsLoading False (stopSharing env (?e2, ?w2))"
    by (simp add: startSharing_def report_error_def)
  from assms(5) tr have "video_handle_tracked ?e2" by (simp add: video_handle_tracked_def)
  from stopSharing_clean [OF assms(4) this, of ?w2] startSharing_try_throw_frame [OF tr] run
  show ?thesis
    by (cases "stopSharing env (?e2, ?w2)") (simp add: setIsLoading_def)
qed

theorem C3_failed_start_rolls_back_witness:
  "element (fresh_world (Some loaded_element)) = Some loaded_element \<and>
   \<not> eng_isSharing initial_engine \<and>
   snd (startSharing_try rollback_env loaded_element start_config) =
     Some (ErrorObj ''publish failed'') \<and>
   (\<forall>n t. unpublishTrack rollback_env n t = None) \<and>
   video_handle_tracked (fst (fst (startSharing_try rollback_env loaded_element start_config))) \<and>
   \<not> eng_isSharing (fst (startSharing rollback_env start_config)) \<and>
   videoTrackRef (fst (startSharing rollback_env start_config)) = None \<and>
   audioTracksRef (fst (startSharing rollback_env start_config)) = None \<and>
   streamRef (fst (startSharing rollback_env start_config)) = None \<and>
   callbacks (snd (startSharing rollback_env start_config)) =
     [OnError ''publish failed'', OnTrackUnpublished]"
proof -
  have h: "element (fresh_world (Some loaded_element)) = Some loaded_element"
    "\<not> eng_isSharing initial_engine"
    "snd (startSharing_try rollback_env loaded_element (initial_engine, fresh_world (Some loaded_element))) =
       Some (ErrorObj ''publish failed'')"
    "\<forall>n t. unpublishTrack rollback_env n t = None"
    "video_handle_tracked (fst (fst (startSharing_try rollback_env loaded_element
       (initial_engine, fresh_world (Some loaded_element)))))"
    using try_in_rollback_env
    by (simp_all add: fresh_world_def initial_engine_def rollback_env_def start_config_def
        video_handle_tracked_def)
  from C3_failed_start_rolls_back [OF h] h show ?thesis
    by (simp add: start_config_def as_error_def fresh_world_def)
qed

subsection \<open>C7: stopping an idle engine\<close>

lemma stop_idle:
  "idle e \<Longrightarrow> stopSharing env (e, w) =
     (e\<lparr>eng_isSharing := False, eng_isLoading := False\<rparr>,
      w\<lparr>callbacks := callbacks w @ [OnTrackUnpublished],
        element := map_option (\<lambda>v. v\<lparr>el_paused := True\<rparr>) (element w)\<rparr>)"
  by (simp add: idle_def stop_defs)

lemma stop_idle_005:
  "idle_005 e \<Longrightarrow> stopSharing_005 env (e, w) =
     (e\<lparr>eng_isSharing := False, eng_isLoading := False\<rparr>,
      w\<lparr>callbacks := callbacks w @ [OnTrackUnpublished],
        element := map_option (\<lambda>v. v\<lparr>el_paused := True\<rparr>) (element w)\<rparr>)"
  by (simp add: idle_005_def stop_defs_005)

text \<open>
  C7: on an engine with no retained video handle, audio handle or stream,
  \<open>stopSharing()\<close> of either copy sets no error and fires no \<open>onError\<close>, leaves
  \<open>isSharing\<close> false and the engine idle, makes no unpublish call, whatever the session
  would answer, and fires \<open>onTrackUnpublished\<close>; a second call leaves the engine as the
  first did.
\<close>

theorem C7_stop_when_idle:
  "(idle e \<longrightarrow>
      idle (fst (stopSharing env (e, w))) \<and>
      \<not> eng_isSharing (fst (stopSharing env (e, w))) \<and>
      eng_error (fst (stopSharing env (e, w))) = eng_error e \<and>
      unpublish_log (snd (stopSharing env (e, w))) = unpublish_log w \<and>
      callbacks (snd (stopSharing env (e, w))) = callbacks w @ [OnTrackUnpublished] \<and>
      fst (stopSharing env (stopSharing env (e, w))) = fst (stopSharing env (e, w))) \<and>
   (idle_005 e \<longrightarrow>
      idle_005 (fst (stopSharing_005 env (e, w))) \<and>
      \<not> eng_isSharing (fst (stopSharing_005 env (e, w))) \<and>
      eng_error (fst (stopSharing_005 env (e, w))) = eng_error e \<and>
      unpublish_log (snd (stopSharing_005 env (e, w))) = unpublish_log w \<and>
      callbacks (snd (stopSharing_005 env (e, w))) = callbacks w @ [OnTrackUnpublished] \<and>
      fst (stopSharing_005 env (stopSharing_005 env (e, w))) = fst (stopSharing_005 env (e, w)))"
proof (intro conjI impI)
  assume i: "idle e"
  let ?e = "e\<lparr>eng_isSharing := False, eng_isLoading := False\<rparr>"
  from i have i': "idle ?e" by (simp add: idle_def)
  note first = stop_idle [OF i, of env w]
  show "idle (fst (stopSharing env (e, w)))" using first i' by simp
  show "\<not> eng_isSharing (fst (stopSharing env (e, w)))" using first by simp
  show "eng_error (fst (stopSharing env (e, w))) = eng_error e" using first by simp
  show "unpublish_log (snd (stopSharing env (e, w))) = unpublish_log w" using first by simp
  show "callbacks (snd (stopSharing env (e, w))) = callbacks w @ [OnTrackUnpublished]"
    using first by simp
  show "fst (stopSharing env (stopSharing env (e, w))) = fst (stopSharing env (e, w))"
    using first stop_idle [OF i', of env] by simp
next
  assume i: "idle_005 e"
  let ?e = "e\<lparr>eng_isSharing := False, eng_isLoading := False\<rparr>"
  from i have i': "idle_005 ?e" by (simp add: idle_005_def)
  note first = stop_idle_005 [OF i, of env w]
  show "idle_005 (fst (stopSharing_005 env (e, w)))" using first i' by simp
  show "\<not> eng_isSharing (fst (stopSharing_005 env (e, w)))" using first by simp
  show "eng_error (fst (stopSharing_005 env (e, w))) = eng_error e" using first by simp
  show "unpublish_log (snd (stopSharing_005 env (e, w))) = unpublish_log w" using first by simp
  show "callbacks (snd (stopSharing_005 env (e, w))) = callbacks w @ [OnTrackUnpublished]"
    using first by simp
  show "fst (stopSharing_005 env (stopSharing_005 env (e, w))) = fst (stopSharing_005 env (e, w))"
    using first stop_idle_005 [OF i', of env] by simp
qed

theorem C7_stop_when_idle_witness:
  "idle initial_engine \<and> idle_005 initial_engine \<and>
   \<not> eng_isSharing (fst (stopSharing failing_env start_config)) \<and>
   eng_error (fst (stopSharing failing_env start_config)) = None \<and>
   unpublish_log (snd (stopSharing failing_env start_config)) = [] \<and>
   callbacks (snd (stopSharing failing_env start_config)) = [OnTrackUnpublished] \<and>
   unpublish_log (snd (stopSharing_005 failing_env start_config)) = [] \<and>
   callbacks (snd (stopSharing_005 failing_env start_config)) = [OnTrackUnpublished]"
proof -
  have i: "idle initial_engine" "idle_005 initial_engine"
    by (simp_all add: idle_def idle_005_def initial_engine_def)
  from C7_stop_when_idle [of initial_engine failing_env "fresh_world (Some loaded_element)"] i
  show ?thesis
    by (simp add: start_config_def) (simp add: initial_engine_def fresh_world_def)
qed

subsection \<open>C10: a stop whose first unpublish call rejects\<close>

text \<open>
  C10: when the engine is sharing and the first unpublish call \<open>stopSharing()\<close> makes (for
  the first retained handle that carries a track) rejects, \<open>stopSharing()\<close> of either
  copy records the error and fires \<open>onError\<close>, and that is all: \<open>isSharing\<close> is still
  true, the video handle, the audio handles and the stream are still retained, no
  sub-track was stopped, no second unpublish call was made, and \<open>onTrackUnpublished\<close> was
  not invoked.
\<close>

theorem C10_stop_not_atomic:
  assumes "eng_isSharing e"
    and "unpublishTrack env (length (unpublish_log w)) t = Some x"
  shows "(tracks_of (handles e) = t # ts \<longrightarrow>
            eng_isSharing (fst (stopSharing env (e, w))) \<and>
            videoTrackRef (fst (stopSharing env (e, w))) = videoTrackRef e \<and>
            audioTracksRef (fst (stopSharing env (e, w))) = audioTracksRef e \<and>
            streamRef (fst (stopSharing env (e, w))) = streamRef e \<and>
            eng_error (fst (stopSharing env (e, w))) = Some (as_error ''Failed to stop sharing'' x) \<and>
            stopped (snd (stopSharing env (e, w))) = stopped w \<and>
            unpublish_log (snd (stopSharing env (e, w))) = unpublish_log w @ [t] \<and>
            callbacks (snd (stopSharing env (e, w))) =
              callbacks w @ [OnError (as_error ''Failed to stop sharing'' x)]) \<and>
         (tracks_of (handles_005 e) = t # ts5 \<longrightarrow>
            eng_isSharing (fst (stopSharing_005 env (e, w))) \<and>
            videoTrackRef (fst (stopSharing_005 env (e, w))) = videoTrackRef e \<and>
            audioTrackRef (fst (stopSharing_005 env (e, w))) = audioTrackRef e \<and>
            streamRef (fst (stopSharing_005 env (e, w))) = streamRef e \<and>
            eng_error (fst (stopSharing_005 env (e, w))) = Some (as_error ''Failed to stop sharing'' x) \<and>
            stopped (snd (stopSharing_005 env (e, w))) = stopped w \<and>
            unpublish_log (snd (stopSharing_005 env (e, w))) = unpublish_log w @ [t] \<and>
            callbacks (snd (stopSharing_005 env (e, w))) =
              callbacks w @ [OnError (as_error ''Failed to stop sharing'' x)])"
proof (intro conjI impI)
  assume h: "tracks_of (handles e) = t # ts"
  note r = stop_first_throws [OF h assms(2)]
  show "eng_isSharing (fst (stopSharing env (e, w)))" using r assms(1) by simp
  show "videoTrackRef (fst (stopSharing env (e, w))) = videoTrackRef e" using r by simp
  show "audioTracksRef (fst (stopSharing env (e, w))) = audioTracksRef e" using r by simp
  show "streamRef (fst (stopSharing env (e, w))) = streamRef e" using r by simp
  show "eng_error (fst (stopSharing env (e, w))) = Some (as_error ''Failed to stop sharing'' x)"
    using r by simp
  show "stopped (snd (stopSharing env (e, w))) = stopped w" using r by simp
  show "unpublish_log (snd (stopSharing env (e, w))) = unpublish_log w @ [t]" using r by simp
  show "callbacks (snd (stopSharing env (e, w))) =
          callbacks w @ [OnError (as_error ''Failed to stop sharing'' x)]" using r by simp
next
  assume h: "tracks_of (handles_005 e) = t # ts5"
  note r = stop_first_throws_005 [OF h assms(2)]
  show "eng_isSharing (fst (stopSharing_005 env (e, w)))" using r assms(1) by simp
  show "videoTrackRef (fst (stopSharing_005 env (e, w))) = videoTrackRef e" using r by simp
  show "audioTrackRef (fst (stopSharing_005 env (e, w))) = audioTrackRef e" using r by simp
  show "streamRef (fst (stopSharing_005 env (e, w))) = streamRef e" using r by simp
  show "eng_error (fst (stopSharing_005 env (e, w))) = Some (as_error ''Failed to stop sharing'' x)"
    using r by simp
  show "stopped (snd (stopSharing_005 env (e, w))) = stopped w" using r by simp
  show "unpublish_log (snd (stopSharing_005 env (e, w))) = unpublish_log w @ [t]" using r by simp
  show "callbacks (snd (stopSharing_005 env (e, w))) =
          callbacks w @ [OnError (as_error ''Failed to stop sharing'' x)]" using r by simp
qed

theorem C10_stop_not_atomic_witness:
  "startSharing ok_env start_config = (sharing_engine, sharing_world) \<and>
   eng_isSharing sharing_engine \<and>
   unpublishTrack failing_env (length (unpublish_log sharing_world)) 0 =
     Some (ErrorObj ''unpublish failed'') \<and>
   tracks_of (handles sharing_engine) = [0, 1, 2] \<and>
   tracks_of (handles_005 sharing_engine) = [0] \<and>
   eng_isSharing (fst (stopSharing failing_env (sharing_engine, sharing_world))) \<and>
   handles (fst (stopSharing failing_env (sharing_engine, sharing_world))) =
     handles sharing_engine \<and>
   streamRef (fst (stopSharing failing_env (sharing_engine, sharing_world))) =
     Some sample_stream \<and>
   stopped (snd (stopSharing failing_env (sharing_engine, sharing_world))) = [] \<and>
   unpublish_log (snd (stopSharing failing_env (sharing_engine, sharing_world))) = [0] \<and>
   callbacks (snd (stopSharing failing_env (sharing_engine, sharing_world))) =
     [OnTrackPublished, OnError ''unpublish failed''] \<and>
   eng_isSharing (fst (stopSharing_005 failing_env (sharing_engine, sharing_world)))"
proof -
  have h: "eng_isSharing sharing_engine"
    "unpublishTrack failing_env (length (unpublish_log sharing_world)) 0 =
       Some (ErrorObj ''unpublish failed'')"
    by (simp_all add: sharing_engine_def sharing_world_def failing_env_def)
  have t: "tracks_of (handles sharing_engine) = 0 # [1, 2]"
    "tracks_of (handles_005 sharing_engine) = 0 # []"
    by (simp_all add: handles_def handles_005_def sharing_engine_def)
  from C10_stop_not_atomic [OF h, of "[1, 2]" "[]"] h t start_in_ok_env show ?thesis
    by (simp add: handles_def as_error_def) (simp add: sharing_engine_def sharing_world_def)
qed

section \<open>Remote control: theorems\<close>

lemma method_names_differ: "PAUSE_STREAM_METHOD \<noteq> SEEK_STREAM_METHOD"
  by (simp add: PAUSE_STREAM_METHOD_def SEEK_STREAM_METHOD_def)

lemma act_keeps_registry: "rpc_methods (act a s) = rpc_methods s"
  by (cases a) (simp_all add: dispatch_def invoke_rpc_def pause_handler_def seek_handler_def
      split: option.splits rpc_closure.splits)

lemma acts_keep_registry: "rpc_methods (acts as s) = rpc_methods s"
  by (induction as arbitrary: s) (simp_all add: act_keeps_registry)

lemma first_registration:
  assumes "rpc_methods s PAUSE_STREAM_METHOD = None" and "rpc_methods s SEEK_STREAM_METHOD = None"
  shows "run_sync_effect (Some v) True s =
     (s\<lparr>listening := True,
        rpc_methods := (rpc_methods s)
          (PAUSE_STREAM_METHOD \<mapsto> PauseClosure (isPlaying (model s)),
           SEEK_STREAM_METHOD \<mapsto> SeekClosure (currentTime (model s)) (duration (model s))),
        model := \<lparr>isPlaying = \<not> el_paused v, currentTime = el_currentTime v,
                  duration = el_duration v, volume = el_volume v,
                  playbackRate = el_playbackRate v\<rparr>\<rparr>, None)"
  using assms method_names_differ
  by (simp add: run_sync_effect_def registerRpcMethod_def Let_def)

lemma registered_closures:
  assumes "rpc_methods s PAUSE_STREAM_METHOD = None" and "rpc_methods s SEEK_STREAM_METHOD = None"
  shows "rpc_methods (sync_effect (Some v) True s) PAUSE_STREAM_METHOD =
           Some (PauseClosure (isPlaying (model s)))"
    and "rpc_methods (sync_effect (Some v) True s) SEEK_STREAM_METHOD =
           Some (SeekClosure (currentTime (model s)) (duration (model s)))"
  using method_names_differ
  by (simp_all add: sync_effect_def first_registration [OF assms])

text \<open>
  A run of the effect while \<open>PausePlayStream\<close> is still registered (the cleanup never
  unregisters): the room refuses, the registry keeps the closures it has and the initial
  sync is skipped.
\<close>

lemma second_registration_refused:
  "rpc_methods s PAUSE_STREAM_METHOD = Some h \<Longrightarrow>
   run_sync_effect (Some v) True s =
     (s\<lparr>listening := True\<rparr>, Some (AlreadyRegistered PAUSE_STREAM_METHOD))"
  by (simp add: run_sync_effect_def registerRpcMethod_def Let_def)

lemma initial_registry_empty:
  "rpc_methods initial_controls PAUSE_STREAM_METHOD = None"
  "rpc_methods initial_controls SEEK_STREAM_METHOD = None"
  by (simp_all add: initial_controls_def)

lemma registered_controls_eq:
  "registered_controls =
     \<lparr>model = \<lparr>isPlaying = True, currentTime = 50, duration = 60, volume = 1, playbackRate = 1\<rparr>,
      listening = True,
      rpc_methods = Map.empty(PAUSE_STREAM_METHOD \<mapsto> PauseClosure False,
                              SEEK_STREAM_METHOD \<mapsto> SeekClosure 0 0)\<rparr>"
  by (simp add: registered_controls_def sync_effect_def
      first_registration [OF initial_registry_empty])
     (simp add: initial_controls_def playing_element_def)

lemma invoke_pause:
  "rpc_methods s PAUSE_STREAM_METHOD = Some (PauseClosure p) \<Longrightarrow>
   invoke_rpc PAUSE_STREAM_METHOD payload s =
     (Some (String_of_bool p), s\<lparr>model := (model s)\<lparr>isPlaying := \<not> p\<rparr>\<rparr>)"
  by (simp add: invoke_rpc_def pause_handler_def)

lemma invoke_seek:
  "rpc_methods s SEEK_STREAM_METHOD = Some (SeekClosure c d) \<Longrightarrow>
   invoke_rpc SEEK_STREAM_METHOD offset s =
     (Some (StringOfNumber c),
      s\<lparr>model := (model s)\<lparr>currentTime := min (max 0 (c + offset)) d\<rparr>\<rparr>)"
  by (simp add: invoke_rpc_def seek_handler_def)

lemma seek_on_fresh_closure:
  assumes "rpc_methods s SEEK_STREAM_METHOD =
             Some (SeekClosure (currentTime (model s)) (duration (model s)))"
  shows "fst (invoke_rpc SEEK_STREAM_METHOD offset s) = Some (StringOfNumber (currentTime (model s)))"
    and "currentTime (model (snd (invoke_rpc SEEK_STREAM_METHOD offset s))) =
           min (max 0 (currentTime (model s) + offset)) (duration (model s))"
  by (simp_all add: invoke_seek [OF assms])

lemma seek_handler_examples:
  "currentTime (snd (seek_handler 10 60 (-20) m)) = 0"
  "currentTime (snd (seek_handler 50 60 20 m)) = 60"
  by (simp_all add: seek_handler_def)

lemma seek_handler_range:
  "0 \<le> d \<Longrightarrow> 0 \<le> currentTime (snd (seek_handler c d offset m)) \<and>
     currentTime (snd (seek_handler c d offset m)) \<le> d"
  by (simp add: seek_handler_def)

lemma pause_on_fresh_closure:
  assumes "rpc_methods s PAUSE_STREAM_METHOD = Some (PauseClosure (isPlaying (model s)))"
  shows "fst (invoke_rpc PAUSE_STREAM_METHOD payload s) = Some (String_of_bool (isPlaying (model s)))"
    and "isPlaying (model (snd (invoke_rpc PAUSE_STREAM_METHOD payload s))) = (\<not> isPlaying (model s))"
  by (simp_all add: invoke_pause [OF assms])

text \<open>
  C5 says that one invocation of the pause/resume method returns the previous
  \<open>isPlaying\<close> of the read model and flips the flag. The handler reads the \<open>isPlaying\<close> its
  closure captured, and the effect that creates the closure does not depend on
  \<open>isPlaying\<close>. Right after video sharing starts on a playing element the closure holds
  \<open>false\<close> (the first render) while the initial sync has set the read model to \<open>true\<close>:
  the invocation returns \<open>false\<close>, not the previous value \<open>true\<close>, and writes
  \<open>!false\<close>, so the flag stays \<open>true\<close> and is not flipped.
\<close>

theorem C5_toggle_on_stale_closure:
  "isPlaying (model registered_controls) \<and>
   fst (invoke_rpc PAUSE_STREAM_METHOD 0 registered_controls) = Some (Chars ''false'') \<and>
   isPlaying (model (snd (invoke_rpc PAUSE_STREAM_METHOD 0 registered_controls)))"
proof -
  have "rpc_methods registered_controls PAUSE_STREAM_METHOD = Some (PauseClosure False)"
    using method_names_differ by (simp add: registered_controls_eq)
  from invoke_pause [OF this, of 0] show ?thesis
    by (simp add: String_of_bool_def) (simp add: registered_controls_eq)
qed

text \<open>
  C6 says that the relative seek sets \<open>currentTime\<close> to \<open>min(max(0, c + o), d)\<close> for the
  current time \<open>c\<close> and duration \<open>d\<close>, and returns the pre-update current time. The
  handler computes with the \<open>currentTime\<close> and \<open>duration\<close> its closure captured. Right
  after video sharing starts the closure holds 0 and 0 (the first render) while the read
  model shows second 50 of 60: the offset 20 sets \<open>currentTime\<close> to 0 and returns 0, where
  the claim gives 60 and 50. (\<open>seek_on_fresh_closure\<close>, \<open>seek_handler_examples\<close> and
  \<open>seek_handler_range\<close> above: the formula, both examples and the range \<open>[0, d]\<close> hold of
  the values the closure holds, hence of the read model while it still equals them.)
\<close>

theorem C6_seek_on_stale_closure:
  "currentTime (model registered_controls) = 50 \<and>
   duration (model registered_controls) = 60 \<and>
   fst (invoke_rpc SEEK_STREAM_METHOD 20 registered_controls) = Some (StringOfNumber 0) \<and>
   currentTime (model (snd (invoke_rpc SEEK_STREAM_METHOD 20 registered_controls))) = 0"
proof -
  have "rpc_methods registered_controls SEEK_STREAM_METHOD = Some (SeekClosure 0 0)"
    by (simp add: registered_controls_eq)
  from invoke_seek [OF this, of 20] show ?thesis
    by simp (simp add: registered_controls_eq)
qed

text \<open>
  C9: after the effect has registered the two handlers in a state \<open>s\<close> (neither name was
  registered before, so the room accepts both and the effect completes), and whatever
  element events and remote invocations \<open>as\<close> follow without the effect running again,
  both handlers compute from the \<open>isPlaying\<close>, \<open>currentTime\<close> and \<open>duration\<close> of \<open>s\<close>, not
  from the read model they are invoked on: the toggle returns \<open>String\<close> of the captured
  \<open>isPlaying\<close> and sets the flag to its negation, the seek returns the captured
  \<open>currentTime\<close> and sets \<open>currentTime\<close> from the captured values. So two consecutive
  invocations of the toggle return the same string and leave \<open>isPlaying\<close> at the same
  value.
\<close>

theorem C9_handlers_use_captured_values:
  assumes "rpc_methods s PAUSE_STREAM_METHOD = None" and "rpc_methods s SEEK_STREAM_METHOD = None"
  shows
  "snd (run_sync_effect (Some v) True s) = None \<and>
   fst (invoke_rpc PAUSE_STREAM_METHOD p1 (acts as (sync_effect (Some v) True s))) =
     Some (String_of_bool (isPlaying (model s))) \<and>
   isPlaying (model (snd (invoke_rpc PAUSE_STREAM_METHOD p1 (acts as (sync_effect (Some v) True s))))) =
     (\<not> isPlaying (model s)) \<and>
   fst (invoke_rpc SEEK_STREAM_METHOD offset (acts as (sync_effect (Some v) True s))) =
     Some (StringOfNumber (currentTime (model s))) \<and>
   currentTime (model (snd (invoke_rpc SEEK_STREAM_METHOD offset (acts as (sync_effect (Some v) True s))))) =
     min (max 0 (currentTime (model s) + offset)) (duration (model s)) \<and>
   fst (invoke_rpc PAUSE_STREAM_METHOD p2
          (snd (invoke_rpc PAUSE_STREAM_METHOD p1 (acts as (sync_effect (Some v) True s))))) =
     fst (invoke_rpc PAUSE_STREAM_METHOD p1 (acts as (sync_effect (Some v) True s))) \<and>
   isPlaying (model (snd (invoke_rpc PAUSE_STREAM_METHOD p2
          (snd (invoke_rpc PAUSE_STREAM_METHOD p1 (acts as (sync_effect (Some v) True s))))))) =
     isPlaying (model (snd (invoke_rpc PAUSE_STREAM_METHOD p1 (acts as (sync_effect (Some v) True s)))))"
proof -
  let ?s = "acts as (sync_effect (Some v) True s)"
  have completes: "snd (run_sync_effect (Some v) True s) = None"
    by (simp add: first_registration [OF assms])
  have p: "rpc_methods ?s PAUSE_STREAM_METHOD = Some (PauseClosure (isPlaying (model s)))"
    by (simp add: acts_keep_registry registered_closures [OF assms])
  have k: "rpc_methods ?s SEEK_STREAM_METHOD =
             Some (SeekClosure (currentTime (model s)) (duration (model s)))"
    by (simp add: acts_keep_registry registered_closures [OF assms])
  let ?s1 = "snd (invoke_rpc PAUSE_STREAM_METHOD p1 ?s)"
  have "?s1 = act (Invoke PAUSE_STREAM_METHOD p1) ?s" by simp
  then have "rpc_methods ?s1 = rpc_methods ?s" by (simp only: act_keeps_registry)
  with p have p1: "rpc_methods ?s1 PAUSE_STREAM_METHOD = Some (PauseClosure (isPlaying (model s)))"
    by simp
  note first = invoke_pause [OF p, of p1]
  note second = invoke_pause [OF p1, of p2]
  from first second completes show ?thesis
    by (simp add: invoke_seek [OF k])
qed

theorem C9_handlers_use_captured_values_witness:
  "rpc_methods initial_controls PAUSE_STREAM_METHOD = None \<and>
   rpc_methods initial_controls SEEK_STREAM_METHOD = None \<and>
   isPlaying (model (acts [Fire Play playing_element, Fire TimeUpdate playing_element]
                       registered_controls)) \<and>
   currentTime (model (acts [Fire Play playing_element, Fire TimeUpdate playing_element]
                         registered_controls)) = 50 \<and>
   fst (invoke_rpc PAUSE_STREAM_METHOD 0
          (acts [Fire Play playing_element, Fire TimeUpdate playing_element]
             registered_controls)) = Some (Chars ''false'') \<and>
   fst (invoke_rpc PAUSE_STREAM_METHOD 0
          (snd (invoke_rpc PAUSE_STREAM_METHOD 0
             (acts [Fire Play playing_element, Fire TimeUpdate playing_element]
                registered_controls)))) = Some (Chars ''false'') \<and>
   isPlaying (model (snd (invoke_rpc PAUSE_STREAM_METHOD 0
          (snd (invoke_rpc PAUSE_STREAM_METHOD 0
             (acts [Fire Play playing_element, Fire TimeUpdate playing_element]
                registered_controls)))))) \<and>
   fst (invoke_rpc SEEK_STREAM_METHOD 20
          (acts [Fire Play playing_element, Fire TimeUpdate playing_element]
             registered_controls)) = Some (StringOfNumber 0) \<and>
   currentTime (model (snd (invoke_rpc SEEK_STREAM_METHOD 20
          (acts [Fire Play playing_element, Fire TimeUpdate playing_element]
             registered_controls)))) = 0"
proof -
  have live: "model (acts [Fire Play playing_element, Fire TimeUpdate playing_element]
                       registered_controls) =
      \<lparr>isPlaying = True, currentTime = 50, duration = 60, volume = 1, playbackRate = 1\<rparr>"
    by (simp add: registered_controls_eq dispatch_def playing_element_def)
  from C9_handlers_use_captured_values [OF initial_registry_empty,
      of playing_element 0 "[Fire Play playing_element, Fire TimeUpdate playing_element]" 20 0]
    initial_registry_empty live
  show ?thesis
    by (simp add: registered_controls_def String_of_bool_def)
       (simp add: initial_controls_def)
qed

section \<open>File selection: theorems\<close>

text \<open>
  C8, as stated: a file whose type does not begin with \<open>video\<close> is rejected with a
  validation message, and a file whose type does begin with \<open>video\<close> becomes the selected
  file. Both entry points test the prefix \<open>video/\<close>: a file of type \<open>videotape/raw\<close>
  begins with \<open>video\<close> and is not selected. And the hidden input of \<open>ShareProvider\<close>
  shows no message: for a file of type \<open>image/png\<close> it changes nothing at all.
\<close>

theorem C8_file_selection_counterexample:
  "startsWith (file_type odd_file) ''video'' \<and>
   modal_selectedFile (handleFileSelect [odd_file]
      \<lparr>modal_selectedFile = None, modal_error = None\<rparr>) = None \<and>
   \<not> startsWith (file_type png_file) ''video'' \<and>
   provider_onChange [png_file] (initial_share :: repo_handler share_state) = initial_share"
  by (simp add: startsWith_def odd_file_def png_file_def handleFileSelect_def
      provider_onChange_def)

text \<open>
  C8, amended: for every file whose type does not begin with \<open>video/\<close>,
  \<open>handleFileSelect\<close> of the modal sets the message \<open>Please select a valid video file\<close>
  and changes nothing else, so the selected file stays, and the hidden input of
  \<open>ShareProvider\<close> leaves the whole state unchanged, without a message; for every file
  whose type begins with \<open>video/\<close>, the file becomes the selected file (and the modal
  clears its message). An empty file list changes nothing.
\<close>

theorem C8_file_selection:
  "(\<not> startsWith (file_type f) ''video/'' \<longrightarrow>
      handleFileSelect (f # rest) s = s\<lparr>modal_error := Some ''Please select a valid video file''\<rparr> \<and>
      modal_selectedFile (handleFileSelect (f # rest) s) = modal_selectedFile s \<and>
      provider_onChange (f # rest) p = p) \<and>
   (startsWith (file_type f) ''video/'' \<longrightarrow>
      handleFileSelect (f # rest) s = s\<lparr>modal_selectedFile := Some f, modal_error := None\<rparr> \<and>
      provider_onChange (f # rest) p = p\<lparr>selectedFile := Some f\<rparr>) \<and>
   handleFileSelect [] s = s \<and> provider_onChange [] p = p"
  by (simp add: handleFileSelect_def provider_onChange_def)

theorem C8_file_selection_witness:
  "\<not> startsWith (file_type png_file) ''video/'' \<and>
   startsWith (file_type mp4_file) ''video/'' \<and>
   handleFileSelect [png_file] \<lparr>modal_selectedFile = Some mp4_file, modal_error = None\<rparr> =
     \<lparr>modal_selectedFile = Some mp4_file,
      modal_error = Some ''Please select a valid video file''\<rparr> \<and>
   provider_onChange [png_file] (initial_share :: repo_handler share_state) = initial_share \<and>
   handleFileSelect [mp4_file]
     \<lparr>modal_selectedFile = None, modal_error = Some ''Please select a valid video file''\<rparr> =
     \<lparr>modal_selectedFile = Some mp4_file, modal_error = None\<rparr> \<and>
   selectedFile (provider_onChange [mp4_file] (initial_share :: repo_handler share_state)) =
     Some mp4_file"
proof -
  have h: "\<not> startsWith (file_type png_file) ''video/''" "startsWith (file_type mp4_file) ''video/''"
    by (simp_all add: startsWith_def png_file_def mp4_file_def)
  from h C8_file_selection [of png_file "[]"
      "\<lparr>modal_selectedFile = Some mp4_file, modal_error = None\<rparr>"
      "initial_share :: repo_handler share_state"]
    C8_file_selection [of mp4_file "[]"
      "\<lparr>modal_selectedFile = None, modal_error = Some ''Please select a valid video file''\<rparr>"
      "initial_share :: repo_handler share_state"]
  show ?thesis by simp
qed

end
